theory Spec2Isabelle
  imports Complex_Main
begin

section \<open>Python values and library operations used by the engine\<close>

text \<open>
  Python floats are modelled as real numbers (exact arithmetic), Python ints as
  integers, strings as lists of characters (one character per code point; the
  degree sign U+00B0 is the character 0xB0).  An exception is a value of type
  \<open>error\<close>; a computation that may raise returns \<open>error + 'a\<close> with \<open>Inl\<close> for the
  exception.
\<close>

datatype error =
    NameError string
  | KeyError
  | IndexError
  | ValueError
  | TypeError
  | OSError
  | ZeroDivisionError
  | APIDataError

text \<open>Python's \<open>x % m\<close> on floats, for a positive modulus: the result lies in \<open>[0, m)\<close>.\<close>

definition py_fmod :: "real \<Rightarrow> real \<Rightarrow> real" where
  "py_fmod x m = x - m * of_int \<lfloor>x / m\<rfloor>"

text \<open>Rounding to the nearest integer, ties to the even neighbour, as \<open>round\<close> and the
  \<open>.1f\<close> format do.\<close>

definition round_half_even :: "real \<Rightarrow> int" where
  "round_half_even x =
     (let f = \<lfloor>x\<rfloor>; d = x - of_int f
      in if d < 1 / 2 then f
         else if 1 / 2 < d then f + 1
         else if even f then f else f + 1)"

text \<open>\<open>round(x, 1)\<close>, \<open>round(x, 2)\<close> and \<open>round(x, 4)\<close>.\<close>

definition py_round :: "real \<Rightarrow> nat \<Rightarrow> real" where
  "py_round x ndigits = of_int (round_half_even (x * 10 ^ ndigits)) / 10 ^ ndigits"

definition digit_char :: "nat \<Rightarrow> char" where
  "digit_char d = ''0123456789'' ! d"

text \<open>\<open>str(n)\<close> for a non-negative int.\<close>

fun str_nat :: "nat \<Rightarrow> string" where
  "str_nat n =
     (if n < 10 then [digit_char n]
      else str_nat (n div 10) @ [digit_char (n mod 10)])"

text \<open>The format specification \<open>{x:.1f}\<close>: sign, integer part, one decimal.\<close>

definition format_1f :: "real \<Rightarrow> string" where
  "format_1f x =
     (let t = nat (round_half_even (\<bar>x\<bar> * 10))
      in (if x < 0 then ''-'' else []) @ str_nat (t div 10) @ ''.'' @ str_nat (t mod 10))"

text \<open>\<open>d[k]\<close> on a dict given by its items in insertion order.\<close>

definition dict_get :: "('k \<times> 'v) list \<Rightarrow> 'k \<Rightarrow> error + 'v" where
  "dict_get d k = (case map_of d k of None \<Rightarrow> Inl KeyError | Some v \<Rightarrow> Inr v)"

text \<open>\<open>min(xs, key=...)\<close>: the first element whose key is minimal; ValueError on an
  empty sequence.\<close>

fun min_from :: "('a \<Rightarrow> real) \<Rightarrow> 'a \<Rightarrow> 'a list \<Rightarrow> 'a" where
  "min_from key best [] = best"
| "min_from key best (x # xs) = min_from key (if key x < key best then x else best) xs"

definition py_min :: "('a \<Rightarrow> real) \<Rightarrow> 'a list \<Rightarrow> error + 'a" where
  "py_min key xs = (case xs of [] \<Rightarrow> Inl ValueError | x # rest \<Rightarrow> Inr (min_from key x rest))"

text \<open>\<open>sorted(xs, key=...)\<close> is stable, as \<open>sort_key\<close> is.\<close>

definition py_sorted :: "('a \<Rightarrow> real) \<Rightarrow> 'a list \<Rightarrow> 'a list" where
  "py_sorted key xs = sort_key key xs"

definition py_index :: "'a list \<Rightarrow> nat \<Rightarrow> error + 'a" where
  "py_index xs i = (if i < length xs then Inr (xs ! i) else Inl IndexError)"


section \<open>astronomy\_utils: visibility and sky position\<close>

subsection \<open>is\_planet\_visible\<close>

text \<open>\<open>magnitude\<close> and \<open>max_magnitude\<close> are Optional: \<open>None\<close> is Python's None.\<close>

definition is_planet_visible :: "real \<Rightarrow> real option \<Rightarrow> real \<Rightarrow> real option \<Rightarrow> bool" where
  "is_planet_visible altitude magnitude min_altitude max_magnitude =
     (if altitude < min_altitude then False
      else if (case magnitude of None \<Rightarrow> False
               | Some m \<Rightarrow> (case max_magnitude of None \<Rightarrow> False | Some mx \<Rightarrow> mx < m))
        then False
      else if altitude < 10 \<and>
              (case magnitude of None \<Rightarrow> False
               | Some m \<Rightarrow>
                   (let effective_magnitude = m + (10 - altitude) * 0.2
                    in case max_magnitude of None \<Rightarrow> False
                       | Some mx \<Rightarrow> mx < effective_magnitude))
        then False
      else True)"

subsection \<open>get\_azimuth\_direction\<close>

definition AZIMUTH_DIRECTIONS :: "(int \<times> string) list" where
  "AZIMUTH_DIRECTIONS =
     [(0, ''North''), (45, ''Northeast''), (90, ''East''), (135, ''Southeast''),
      (180, ''South''), (225, ''Southwest''), (270, ''West''), (315, ''Northwest''),
      (360, ''North'')]"

definition get_azimuth_direction :: "real \<Rightarrow> error + string" where
  "get_azimuth_direction azimuth0 =
     (let azimuth = py_fmod azimuth0 360;
          keys = map fst AZIMUTH_DIRECTIONS
      in case py_min (\<lambda>x. \<bar>of_int x - azimuth\<bar>) keys of
           Inl e \<Rightarrow> Inl e
         | Inr closest_direction \<Rightarrow>
             if 22.5 < \<bar>azimuth - of_int closest_direction\<bar> then
               (let directions = py_sorted (\<lambda>x. \<bar>of_int x - azimuth\<bar>) keys
                in case py_index directions 0 of
                     Inl e \<Rightarrow> Inl e
                   | Inr d1 \<Rightarrow>
                   (case py_index directions 1 of
                     Inl e \<Rightarrow> Inl e
                   | Inr d2 \<Rightarrow>
                   (let swap = ((d2 < d1 \<and> \<not> (270 < d1 \<and> d2 < 90)) \<or> (d1 < 90 \<and> 270 < d2));
                        dir1 = (if swap then d2 else d1);
                        dir2 = (if swap then d1 else d2)
                    in case dict_get AZIMUTH_DIRECTIONS dir1 of
                         Inl e \<Rightarrow> Inl e
                       | Inr n1 \<Rightarrow>
                       (case dict_get AZIMUTH_DIRECTIONS dir2 of
                         Inl e \<Rightarrow> Inl e
                       | Inr n2 \<Rightarrow> Inr (n1 @ ''-'' @ n2)))))
             else dict_get AZIMUTH_DIRECTIONS closest_direction)"

subsection \<open>get\_altitude\_description and get\_sky\_position\_description\<close>

definition get_altitude_description :: "real \<Rightarrow> string" where
  "get_altitude_description altitude =
     (if altitude < 0 then ''below the horizon''
      else if altitude < 15 then ''low''
      else if altitude < 45 then ''at medium height''
      else if altitude < 75 then ''high''
      else ''almost directly overhead'')"

definition get_sky_position_description :: "real \<Rightarrow> real \<Rightarrow> string \<Rightarrow> error + string" where
  "get_sky_position_description altitude azimuth language =
     (case get_azimuth_direction azimuth of
        Inl e \<Rightarrow> Inl e
      | Inr direction \<Rightarrow>
          (let altitude_desc = get_altitude_description altitude
           in if language = ''en''
              then Inr (''looking '' @ direction @ '', '' @ altitude_desc @ '' (''
                        @ format_1f altitude @ [CHR 0xB0] @ '')'')
              else Inr (''looking '' @ direction @ '', '' @ altitude_desc @ '' (''
                        @ format_1f altitude @ [CHR 0xB0] @ '')'')))"


section \<open>The result cache: cache\_result and \_generate\_cache\_key\<close>

text \<open>
  The decorator is defined twice, in planets\_api and in astronomy\_utils, with the same
  body.  The two modules differ in the names their import statements bind and in
  \<open>CACHE_DURATION\<close>; a module is modelled by these.  The wrapper and the key function
  read two library modules through global names, \<open>hashlib\<close> and \<open>time\<close>; no other
  statement of either module binds these two names, so each is bound exactly when it is
  imported, and evaluating it unbound raises NameError.
\<close>

record module_globals =
  imported :: "string list"
  CACHE_ENABLED :: bool
  CACHE_DURATION :: real

definition planets_api :: module_globals where
  "planets_api =
     \<lparr> imported = [''logging'', ''json'', ''os'', ''hashlib'', ''math'', ''Dict'', ''List'',
                    ''Optional'', ''Union'', ''Any'', ''Tuple'', ''Callable'', ''datetime'',
                    ''timedelta'', ''time'', ''load'', ''wgs84'', ''utc'', ''almanac'',
                    ''planetary_magnitude'', ''get_constellation'', ''pytz''],
       CACHE_ENABLED = True,
       CACHE_DURATION = 300 \<rparr>"

definition astronomy_utils :: module_globals where
  "astronomy_utils =
     \<lparr> imported = [''math'', ''logging'', ''os'', ''json'', ''functools'', ''Dict'', ''List'',
                    ''Optional'', ''Union'', ''Any'', ''Tuple'', ''Callable'', ''datetime'',
                    ''timedelta'', ''np'', ''u'', ''SkyCoord'', ''AltAz'', ''EarthLocation'',
                    ''get_constellation'', ''Time'', ''solar_system_ephemeris'', ''get_body'',
                    ''load'', ''wgs84'', ''planetary_magnitude''],
       CACHE_ENABLED = True,
       CACHE_DURATION = 3600 \<rparr>"

definition global_name :: "module_globals \<Rightarrow> string \<Rightarrow> error + unit" where
  "global_name M n = (if n \<in> set (imported M) then Inr () else Inl (NameError n))"

text \<open>
  A file of the cache directory holds either a complete entry, the JSON object with the
  keys \<open>result\<close> and \<open>_cache_time\<close> that the wrapper dumps, or text that \<open>json.load\<close> rejects
  (an interrupted or failed dump leaves such a file, since \<open>open(path, 'w')\<close> truncates
  first).  The state is the directory, by cache key, and a counter of the executions of
  the wrapped function.
\<close>

datatype 'r cache_file = Corrupt | Entry 'r real

record 'r cache_state =
  files :: "string \<Rightarrow> 'r cache_file option"
  calls :: nat

text \<open>What the environment does during one call of the wrapper: whether reading the
  existing file raises, whether opening the file for writing raises, whether writing the
  dump raises, and the two readings of \<open>time.time()\<close>.\<close>

record io_events =
  read_fails :: bool
  now_check :: real
  open_fails :: bool
  dump_fails :: bool
  now_store :: real

text \<open>The library: \<open>hashlib.md5(s.encode()).hexdigest()\<close>, and \<open>json\<close> as the value that
  \<open>json.load\<close> reads back from the dump of a result (TypeError when the result is not
  serialisable).\<close>

record 'r pylib =
  md5_hexdigest :: "string \<Rightarrow> string"
  json_roundtrip :: "'r \<Rightarrow> error + 'r"

text \<open>\<open>args_str\<close> is \<open>str(args) + str(sorted(kwargs.items()))\<close>.\<close>

definition generate_cache_key ::
  "module_globals \<Rightarrow> (string \<Rightarrow> string) \<Rightarrow> string \<Rightarrow> string \<Rightarrow> error + string" where
  "generate_cache_key M md5 func_name args_str =
     (case global_name M ''hashlib'' of
        Inl e \<Rightarrow> Inl e
      | Inr _ \<Rightarrow> Inr (func_name @ ''_'' @ md5 args_str))"

text \<open>The read block: \<open>None\<close> when there is no file, when anything in the \<open>try\<close> raises,
  or when the entry has expired.\<close>

definition cache_lookup :: "module_globals \<Rightarrow> io_events \<Rightarrow> 'r cache_file option \<Rightarrow> 'r option" where
  "cache_lookup M io file =
     (case file of
        None \<Rightarrow> None
      | Some content \<Rightarrow>
          if read_fails io then None
          else (case content of
                  Corrupt \<Rightarrow> None
                | Entry cached cache_time \<Rightarrow>
                    (case global_name M ''time'' of
                       Inl e \<Rightarrow> None
                     | Inr _ \<Rightarrow>
                         if now_check io - cache_time \<le> CACHE_DURATION M
                         then Some cached else None)))"

text \<open>The write block: every exception is caught; what is left in the directory depends
  on where it was raised.\<close>

definition cache_store ::
  "module_globals \<Rightarrow> 'r pylib \<Rightarrow> io_events \<Rightarrow> string \<Rightarrow> 'r
     \<Rightarrow> (string \<Rightarrow> 'r cache_file option) \<Rightarrow> (string \<Rightarrow> 'r cache_file option)" where
  "cache_store M lib io cache_key r fs =
     (if open_fails io then fs
      else (case global_name M ''time'' of
              Inl e \<Rightarrow> fs(cache_key \<mapsto> Corrupt)
            | Inr _ \<Rightarrow>
                (case json_roundtrip lib r of
                   Inl e \<Rightarrow> fs(cache_key \<mapsto> Corrupt)
                 | Inr stored \<Rightarrow>
                     if dump_fails io then fs(cache_key \<mapsto> Corrupt)
                     else fs(cache_key \<mapsto> Entry stored (now_store io)))))"

text \<open>The wrapper.  \<open>func\<close> is the wrapped function as it behaves at this call,
  \<open>func_name\<close> its \<open>__name__\<close>, \<open>repr_call\<close> the string of the call's arguments.\<close>

definition cache_result ::
  "module_globals \<Rightarrow> 'r pylib \<Rightarrow> string \<Rightarrow> ('a \<Rightarrow> string) \<Rightarrow> ('a \<Rightarrow> error + 'r)
     \<Rightarrow> io_events \<Rightarrow> 'a \<Rightarrow> 'r cache_state \<Rightarrow> (error + 'r) \<times> 'r cache_state" where
  "cache_result M lib func_name repr_call func io args st =
     (if \<not> CACHE_ENABLED M then (func args, st\<lparr>calls := calls st + 1\<rparr>)
      else (case generate_cache_key M (md5_hexdigest lib) func_name (repr_call args) of
              Inl e \<Rightarrow> (Inl e, st)
            | Inr cache_key \<Rightarrow>
                (case cache_lookup M io (files st cache_key) of
                   Some cached \<Rightarrow> (Inr cached, st)
                 | None \<Rightarrow>
                     (case func args of
                        Inl e \<Rightarrow> (Inl e, st\<lparr>calls := calls st + 1\<rparr>)
                      | Inr r \<Rightarrow>
                          (Inr r,
                           st\<lparr>calls := calls st + 1,
                              files := cache_store M lib io cache_key r (files st)\<rparr>)))))"


section \<open>planets\_api: positions of the catalogued bodies\<close>

subsection \<open>Times, and the Skyfield and astropy calls\<close>

text \<open>A \<open>datetime\<close>: its calendar fields as one number of microseconds, and its
  \<open>tzinfo\<close> (the UTC offset in minutes; \<open>None\<close> for a naive value).\<close>

record datetime =
  wall :: int
  tzinfo :: "int option"

text \<open>The \<open>time\<close> argument is an ISO 8601 string or a \<open>datetime\<close>.\<close>

datatype time_arg = TimeStr string | TimeObj datetime

text \<open>
  The library calls and the clock are parameters of the model; each call that can raise
  returns an \<open>error\<close>.  \<open>'o\<close> is an observer position, \<open>'t\<close> a Skyfield time, \<open>'p\<close> an
  apparent position.  A body is passed by its catalogue name.
  \<^item> \<open>now_utc\<close>: \<open>datetime.now(tz=utc)\<close>;
  \<^item> \<open>fromisoformat\<close>: \<open>datetime.fromisoformat\<close>;
  \<^item> \<open>latlon\<close>: \<open>wgs84.latlon(latitude, longitude, elevation_m=elevation)\<close>;
  \<^item> \<open>from_datetime\<close>: \<open>ts.from_datetime\<close>;
  \<^item> \<open>ephemeris_has\<close>: the keys of the loaded ephemeris;
  \<^item> \<open>observe\<close>: \<open>(earth + observer).at(t).observe(body).apparent()\<close>;
  \<^item> \<open>altaz\<close>: \<open>altaz()\<close>, as altitude and azimuth in degrees;
  \<^item> \<open>radec\<close>: \<open>radec()\<close>, as hours and degrees;
  \<^item> \<open>planetary_magnitude\<close>: the call \<open>planetary_magnitude(planet, earth, sun_position, t)\<close>;
  \<^item> \<open>get_constellation\<close>: astropy's lookup, on the two angles in radians;
  \<^item> \<open>ecliptic_lon\<close>: \<open>earth.at(t).observe(body).apparent().ecliptic_latlon()\<close>, the
    longitude in degrees;
  \<^item> \<open>distance_km\<close>: the distance of that apparent position in kilometres;
  \<^item> \<open>strftime_ymd\<close>: \<open>strftime("%Y-%m-%d")\<close>.
\<close>

record ('o, 't, 'p) skyfield =
  now_utc :: datetime
  fromisoformat :: "string \<Rightarrow> error + datetime"
  latlon :: "real \<Rightarrow> real \<Rightarrow> real \<Rightarrow> error + 'o"
  from_datetime :: "datetime \<Rightarrow> error + 't"
  ephemeris_has :: "string \<Rightarrow> bool"
  observe :: "'o \<Rightarrow> 't \<Rightarrow> string \<Rightarrow> error + 'p"
  altaz :: "'p \<Rightarrow> error + real \<times> real"
  radec :: "'p \<Rightarrow> error + real \<times> real"
  planetary_magnitude :: "string \<Rightarrow> 'p \<Rightarrow> 't \<Rightarrow> error + real"
  get_constellation :: "real \<Rightarrow> real \<Rightarrow> error + string"
  ecliptic_lon :: "'t \<Rightarrow> string \<Rightarrow> error + real"
  distance_km :: "'t \<Rightarrow> string \<Rightarrow> error + real"
  strftime_ymd :: "datetime \<Rightarrow> string"

subsection \<open>The catalogue PLANETS\<close>

text \<open>The nine entries of the dict literal in insertion order, then Pluto and the moons,
  each group only when the ephemeris has every body of the group (one \<open>try\<close> per
  group).\<close>

definition PLANETS :: "(string \<Rightarrow> bool) \<Rightarrow> string list" where
  "PLANETS has =
     [''Sun'', ''Mercury'', ''Venus'', ''Mars'', ''Jupiter'', ''Saturn'', ''Uranus'',
      ''Neptune'', ''Moon'']
     @ (if has ''pluto barycenter'' then [''Pluto''] else [])
     @ (if has ''io'' \<and> has ''europa'' \<and> has ''ganymede'' \<and> has ''callisto''
        then [''Io'', ''Europa'', ''Ganymede'', ''Callisto''] else [])
     @ (if has ''titan'' \<and> has ''enceladus'' \<and> has ''mimas'' \<and> has ''dione''
           \<and> has ''rhea'' \<and> has ''iapetus''
        then [''Titan'', ''Enceladus'', ''Mimas'', ''Dione'', ''Rhea'', ''Iapetus''] else [])
     @ (if has ''miranda'' \<and> has ''ariel'' \<and> has ''umbriel'' \<and> has ''titania''
           \<and> has ''oberon''
        then [''Miranda'', ''Ariel'', ''Umbriel'', ''Titania'', ''Oberon''] else [])
     @ (if has ''triton'' \<and> has ''nereid'' then [''Triton'', ''Nereid''] else [])"

subsection \<open>\_format\_ra\_dec\<close>

text \<open>\<open>int(x)\<close> on a float truncates towards zero.\<close>

definition py_int :: "real \<Rightarrow> int" where
  "py_int x = (if 0 \<le> x then \<lfloor>x\<rfloor> else \<lceil>x\<rceil>)"

text \<open>The two dicts; the key \<open>negative\<close> of each is \<open>ra_negative\<close> and \<open>dec_negative\<close>
  here.\<close>

record ra_formatted =
  ra_hours :: int
  ra_minutes :: int
  ra_seconds :: real
  ra_negative :: bool

record dec_formatted =
  dec_degrees :: int
  dec_arcminutes :: int
  dec_arcseconds :: real
  dec_negative :: bool

definition format_ra_dec :: "real \<Rightarrow> real \<Rightarrow> ra_formatted \<times> dec_formatted" where
  "format_ra_dec hours0 degrees0 =
     (let hours_abs = \<bar>hours0\<bar>;
          ra_hour_part = py_int hours_abs;
          ra_minute_part = py_int ((hours_abs - of_int ra_hour_part) * 60);
          ra_second_part = ((hours_abs - of_int ra_hour_part) * 60 - of_int ra_minute_part) * 60;
          dec_degrees_abs = \<bar>degrees0\<bar>;
          dec_degree_part = py_int dec_degrees_abs;
          dec_arcminute_part = py_int ((dec_degrees_abs - of_int dec_degree_part) * 60);
          dec_arcsecond_part =
            ((dec_degrees_abs - of_int dec_degree_part) * 60 - of_int dec_arcminute_part) * 60
      in (\<lparr> ra_hours = ra_hour_part, ra_minutes = ra_minute_part,
             ra_seconds = py_round ra_second_part 2, ra_negative = (hours0 < 0) \<rparr>,
          \<lparr> dec_degrees = dec_degree_part, dec_arcminutes = dec_arcminute_part,
             dec_arcseconds = py_round dec_arcsecond_part 2, dec_negative = (degrees0 < 0) \<rparr>))"

subsection \<open>get\_visible\_planets\<close>

text \<open>One record of the result; the two coordinate entries are present only with
  \<open>show_coords\<close>.\<close>

record planet_data =
  pd_name :: string
  pd_altitude :: real
  pd_azimuth :: real
  pd_magnitude :: real
  pd_constellation :: string
  pd_rightAscension :: "ra_formatted option"
  pd_declination :: "dec_formatted option"

text \<open>\<open>time.replace('Z', '+00:00')\<close>.\<close>

definition replace_Z :: "string \<Rightarrow> string" where
  "replace_Z s = concat (map (\<lambda>c. if c = CHR ''Z'' then ''+00:00'' else [c]) s)"

text \<open>Lines 355 to 373: the observation time.  Only a ValueError of the parser is
  caught; it is answered with the current time.\<close>

definition observation_time :: "('o, 't, 'p) skyfield \<Rightarrow> time_arg option \<Rightarrow> error + datetime" where
  "observation_time sky time_arg =
     (case time_arg of
        None \<Rightarrow> Inr (now_utc sky)
      | Some (TimeStr s) \<Rightarrow>
          (case fromisoformat sky (replace_Z s) of
             Inr time_obj \<Rightarrow>
               Inr (if tzinfo time_obj = None then time_obj\<lparr>tzinfo := Some 0\<rparr> else time_obj)
           | Inl e \<Rightarrow> if e = ValueError then Inr (now_utc sky) else Inl e)
      | Some (TimeObj d) \<Rightarrow>
          Inr (if tzinfo d \<noteq> None then d else d\<lparr>tzinfo := Some 0\<rparr>))"

definition fallback_magnitudes :: "(string \<times> real) list" where
  "fallback_magnitudes =
     [(''Mercury'', - 0.5), (''Venus'', - 4.2), (''Mars'', 1.2), (''Jupiter'', - 2.3),
      (''Saturn'', 0.8), (''Uranus'', 5.7), (''Neptune'', 7.9)]"

text \<open>Lines 397 to 415: the magnitude of one body.\<close>

definition body_magnitude :: "('o, 't, 'p) skyfield \<Rightarrow> 'o \<Rightarrow> 't \<Rightarrow> string \<Rightarrow> real" where
  "body_magnitude sky observer t body =
     (if body = ''Moon'' then - 12.5
      else if body = ''Sun'' then - 26.7
      else (case (case observe sky observer t ''Sun'' of
                    Inl e \<Rightarrow> Inl e
                  | Inr sun_position \<Rightarrow> planetary_magnitude sky body sun_position t) of
              Inr m \<Rightarrow> m
            | Inl e \<Rightarrow> (case map_of fallback_magnitudes body of Some m \<Rightarrow> m | None \<Rightarrow> 0)))"

text \<open>Lines 388 to 445: the body of the loop, for one catalogue entry.  An error is the
  exception that the loop's \<open>except\<close> logs.\<close>

definition planet_record ::
  "('o, 't, 'p) skyfield \<Rightarrow> 'o \<Rightarrow> 't \<Rightarrow> bool \<Rightarrow> string \<Rightarrow> error + planet_data" where
  "planet_record sky observer t show_coords body =
     (case observe sky observer t body of
        Inl e \<Rightarrow> Inl e
      | Inr apparent_position \<Rightarrow>
          (case altaz sky apparent_position of
             Inl e \<Rightarrow> Inl e
           | Inr (alt_degrees, az_degrees) \<Rightarrow>
               (let mag = body_magnitude sky observer t body
                in case radec sky apparent_position of
                     Inl e \<Rightarrow> Inl e
                   | Inr (hours, degrees) \<Rightarrow>
                       (let constellation =
                              (case get_constellation sky (hours * 15 * pi / 180)
                                      (degrees * pi / 180) of
                                 Inr c \<Rightarrow> c
                               | Inl e \<Rightarrow> ''Unknown'');
                            planet =
                              \<lparr> pd_name = body,
                                pd_altitude = py_round alt_degrees 2,
                                pd_azimuth = py_round az_degrees 2,
                                pd_magnitude = py_round mag 2,
                                pd_constellation = constellation,
                                pd_rightAscension = None,
                                pd_declination = None \<rparr>
                        in Inr (if show_coords
                                then planet
                                       \<lparr> pd_rightAscension := Some (fst (format_ra_dec hours degrees)),
                                         pd_declination := Some (snd (format_ra_dec hours degrees)) \<rparr>
                                else planet)))))"

text \<open>The loop over the catalogue: a body whose record raised is left out.\<close>

fun collect_planets :: "(string \<Rightarrow> error + planet_data) \<Rightarrow> string list \<Rightarrow> planet_data list" where
  "collect_planets calc [] = []"
| "collect_planets calc (body # bodies) =
     (case calc body of
        Inl e \<Rightarrow> collect_planets calc bodies
      | Inr planet \<Rightarrow> planet # collect_planets calc bodies)"

text \<open>The \<open>def\<close> statement of lines 322 to 458: the function object that line 321 hands
  to \<open>cache_result\<close>.  Whatever the outer \<open>try\<close> catches is raised again as APIDataError.
  The module's name \<open>get_visible_planets\<close> is bound to the wrapper around this function,
  \<open>cached_get_visible_planets\<close> below: that is what a caller runs.\<close>

definition get_visible_planets ::
  "('o, 't, 'p) skyfield \<Rightarrow> real option \<Rightarrow> real option \<Rightarrow> real option \<Rightarrow> time_arg option
     \<Rightarrow> bool \<Rightarrow> bool \<Rightarrow> bool \<Rightarrow> error + planet_data list" where
  "get_visible_planets sky latitude0 longitude0 elevation0 time_arg show_coords above_horizon
       use_offline_mode =
     (let latitude = (case latitude0 of None \<Rightarrow> 40.7128 | Some v \<Rightarrow> v);
          longitude = (case longitude0 of None \<Rightarrow> - 74.0060 | Some v \<Rightarrow> v);
          elevation = (case elevation0 of None \<Rightarrow> 0 | Some v \<Rightarrow> v)
      in case (case observation_time sky time_arg of
                 Inl e \<Rightarrow> Inl e
               | Inr time_obj \<Rightarrow>
                   (case latlon sky latitude longitude elevation of
                      Inl e \<Rightarrow> Inl e
                    | Inr observer \<Rightarrow>
                        (case from_datetime sky time_obj of
                           Inl e \<Rightarrow> Inl e
                         | Inr t \<Rightarrow>
                             (let planets_data =
                                    collect_planets (planet_record sky observer t show_coords)
                                      (PLANETS (ephemeris_has sky))
                              in Inr (if above_horizon
                                      then filter (\<lambda>p. 0 < pd_altitude p) planets_data
                                      else planets_data))))) of
           Inl e \<Rightarrow> Inl APIDataError
         | Inr planets \<Rightarrow> Inr planets)"

subsection \<open>The decorated function\<close>

text \<open>The arguments of one call as the caller wrote them: \<open>None\<close> for a location or a
  time that is omitted (or passed as None), the three flags with their values.\<close>

record visible_planets_call =
  arg_latitude :: "real option"
  arg_longitude :: "real option"
  arg_elevation :: "real option"
  arg_time :: "time_arg option"
  arg_show_coords :: bool
  arg_above_horizon :: bool
  arg_use_offline_mode :: bool

text \<open>
  Line 321, \<open>@cache_result\<close>: the exported \<open>get_visible_planets\<close>.  The cache key is made of
  the function's name and of \<open>repr_call\<close>, the string of the arguments as written, before
  any default is substituted; on a hit the stored list is returned and the function is not
  run.
\<close>

definition cached_get_visible_planets ::
  "('o, 't, 'p) skyfield \<Rightarrow> planet_data list pylib \<Rightarrow> (visible_planets_call \<Rightarrow> string)
     \<Rightarrow> io_events \<Rightarrow> visible_planets_call \<Rightarrow> planet_data list cache_state
     \<Rightarrow> (error + planet_data list) \<times> planet_data list cache_state" where
  "cached_get_visible_planets sky lib repr_call io c st =
     cache_result planets_api lib ''get_visible_planets'' repr_call
       (\<lambda>a. get_visible_planets sky (arg_latitude a) (arg_longitude a) (arg_elevation a)
              (arg_time a) (arg_show_coords a) (arg_above_horizon a) (arg_use_offline_mode a))
       io c st"

subsection \<open>get\_moon\_phase\<close>

text \<open>Lines 517 to 546: the phase as a percentage, before it is rounded.\<close>

definition moon_phase_percent ::
  "('o, 't, 'p) skyfield \<Rightarrow> datetime option \<Rightarrow> error + real" where
  "moon_phase_percent sky time0 =
     (let time_obj = (case time0 of
                        None \<Rightarrow> now_utc sky
                      | Some d \<Rightarrow> if tzinfo d = None then d\<lparr>tzinfo := Some 0\<rparr> else d)
      in case from_datetime sky time_obj of
           Inl e \<Rightarrow> Inl e
         | Inr t \<Rightarrow>
             (case ecliptic_lon sky t ''sun'' of
                Inl e \<Rightarrow> Inl e
              | Inr slon \<Rightarrow>
                  (case ecliptic_lon sky t ''moon'' of
                     Inl e \<Rightarrow> Inl e
                   | Inr mlon \<Rightarrow>
                       (let phase_angle0 = py_fmod (mlon - slon) 360;
                            phase_angle = (if 180 < phase_angle0 then 360 - phase_angle0
                                           else phase_angle0)
                        in Inr (phase_angle / 180 * 100)))))"

text \<open>Lines 548 to 564: the name of the phase.\<close>

definition moon_phase_name :: "real \<Rightarrow> string" where
  "moon_phase_name phase_percent =
     (if phase_percent < 1 then ''New Moon''
      else if phase_percent < 25 then ''Waxing Crescent''
      else if phase_percent < 49 then ''First Quarter''
      else if phase_percent < 51 then ''First Quarter''
      else if phase_percent < 75 then ''Waxing Gibbous''
      else if phase_percent < 99 then ''Full Moon''
      else if phase_percent < 100 then ''Waning Gibbous''
      else ''Last Quarter'')"

record moon_phase =
  mp_date :: string
  mp_phase_percent :: real
  mp_phase_name :: string
  mp_distance_km :: int
  mp_angular_diameter_degrees :: real

definition get_moon_phase :: "('o, 't, 'p) skyfield \<Rightarrow> datetime option \<Rightarrow> error + moon_phase" where
  "get_moon_phase sky time0 =
     (let time_obj = (case time0 of
                        None \<Rightarrow> now_utc sky
                      | Some d \<Rightarrow> if tzinfo d = None then d\<lparr>tzinfo := Some 0\<rparr> else d)
      in case moon_phase_percent sky time0 of
           Inl e \<Rightarrow> Inl e
         | Inr phase_percent \<Rightarrow>
             (case from_datetime sky time_obj of
                Inl e \<Rightarrow> Inl e
              | Inr t \<Rightarrow>
                  (case distance_km sky t ''moon'' of
                     Inl e \<Rightarrow> Inl e
                   | Inr distance \<Rightarrow>
                       if distance = 0 then Inl ZeroDivisionError
                       else Inr \<lparr> mp_date = strftime_ymd sky time_obj,
                                  mp_phase_percent = py_round phase_percent 1,
                                  mp_phase_name = moon_phase_name phase_percent,
                                  mp_distance_km = round_half_even distance,
                                  mp_angular_diameter_degrees =
                                    py_round (2 * arctan (1737.4 / distance) * 180 / pi) 4 \<rparr>)))"


section \<open>neo\_api: the visibility estimate for a near-Earth object\<close>

text \<open>A value of the record dict that the feed client builds.\<close>

datatype pyval = PyNone | PyStr string | PyNum real | PyBool bool

text \<open>
  A date is its proleptic Gregorian ordinal (\<open>date.toordinal()\<close>), so that
  \<open>(a - b).days\<close> is a difference of integers.  The clock, the parser and the random
  source are parameters:
  \<^item> \<open>today\<close>: \<open>datetime.now().date()\<close>;
  \<^item> \<open>strptime_date\<close>: \<open>datetime.strptime(s, "%Y-%m-%d").date()\<close>, ValueError on a string
    that is not such a date;
  \<^item> \<open>choice_draw\<close> and \<open>randint_draw\<close>: the raw draws behind \<open>random.choice\<close> and
    \<open>random.randint\<close>; \<open>random.choice(xs)\<close> is \<open>xs[draw mod len(xs)]\<close> and
    \<open>random.randint(a, b)\<close> is \<open>a + draw mod (b - a + 1)\<close>.
\<close>

record neo_world =
  today :: int
  strptime_date :: "string \<Rightarrow> error + int"
  choice_draw :: nat
  randint_draw :: nat

datatype neo_visibility =
    NotVisible string
  | Visible string int int string

definition random_choice :: "nat \<Rightarrow> 'a list \<Rightarrow> error + 'a" where
  "random_choice draw xs = (if xs = [] then Inl IndexError else Inr (xs ! (draw mod length xs)))"

definition random_randint :: "nat \<Rightarrow> int \<Rightarrow> int \<Rightarrow> int" where
  "random_randint draw a b = a + int draw mod (b - a + 1)"

definition visibility_note :: string where
  "visibility_note =
     ''This is an approximate visibility estimate. Actual visibility depends on many factors including light pollution, weather, and precise orbital calculations.''"

text \<open>Lines 201 to 208: the directions to draw from, by the observer's latitude.\<close>

definition possible_directions :: "real \<Rightarrow> string list" where
  "possible_directions latitude =
     (let is_northern = (0 < latitude)
      in if is_northern
         then (if 45 < latitude
               then [''South'', ''Southeast'', ''Southwest'']
               else [''South'', ''Southeast'', ''Southwest'', ''East'', ''West''])
         else (if latitude < - 45
               then [''North'', ''Northeast'', ''Northwest'']
               else [''North'', ''Northeast'', ''Northwest'', ''East'', ''West'']))"

text \<open>Lines 215 to 232: the azimuth of the drawn direction, with the default 0.\<close>

definition direction_azimuth :: "string \<Rightarrow> int" where
  "direction_azimuth direction =
     (if direction = ''North'' then 0
      else if direction = ''Northeast'' then 45
      else if direction = ''East'' then 90
      else if direction = ''Southeast'' then 135
      else if direction = ''South'' then 180
      else if direction = ''Southwest'' then 225
      else if direction = ''West'' then 270
      else if direction = ''Northwest'' then 315
      else 0)"

definition get_neo_visibility ::
  "neo_world \<Rightarrow> (string \<Rightarrow> pyval option) \<Rightarrow> real \<Rightarrow> real \<Rightarrow> error + neo_visibility" where
  "get_neo_visibility w neo_data latitude longitude =
     (case neo_data ''close_approach_date'' of
        None \<Rightarrow> Inl KeyError
      | Some v \<Rightarrow>
          (case (case v of PyStr s \<Rightarrow> strptime_date w s | _ \<Rightarrow> Inl TypeError) of
             Inl e \<Rightarrow> Inl e
           | Inr approach_date \<Rightarrow>
               (let date_diff = \<bar>approach_date - today w\<bar>
                in if 7 < date_diff then
                     Inr (NotVisible (''Not visible: approach date is '' @ str_nat (nat date_diff)
                                      @ '' days away from today''))
                   else
                     (case random_choice (choice_draw w) (possible_directions latitude) of
                        Inl e \<Rightarrow> Inl e
                      | Inr direction \<Rightarrow>
                          (let elevation = random_randint (randint_draw w) 20 60;
                               azimuth = direction_azimuth direction
                           in Inr (Visible direction elevation azimuth visibility_note))))))"

text \<open>The fixed mapping from a compass direction to its canonical azimuth, as the
  specification states it: N = 0, NE = 45, E = 90, SE = 135, S = 180, SW = 225, W = 270,
  NW = 315.\<close>

definition compass_azimuth :: "(string \<times> int) list" where
  "compass_azimuth =
     [(''North'', 0), (''Northeast'', 45), (''East'', 90), (''Southeast'', 135),
      (''South'', 180), (''Southwest'', 225), (''West'', 270), (''Northwest'', 315)]"


section \<open>Sample environments\<close>

text \<open>Concrete libraries, clocks and states, on which the theorems below are
  instantiated.\<close>

subsection \<open>A cache with a working directory\<close>


definition demo_io :: "real \<Rightarrow> io_events" where
  "demo_io t = \<lparr> read_fails = False, now_check = t, open_fails = False, dump_fails = False,
                now_store = t \<rparr>"



subsection \<open>A day, a parser for two dates, and two draws\<close>

text \<open>Today is 2025-01-01, ordinal 739252.\<close>

definition demo_neo_world :: neo_world where
  "demo_neo_world =
     \<lparr> today = 739252,
       strptime_date = (\<lambda>s. if s = ''2025-01-01'' then Inr 739252
                            else if s = ''2025-01-11'' then Inr 739262
                            else Inl ValueError),
       choice_draw = 7,
       randint_draw = 100 \<rparr>"

definition demo_neo :: "string \<Rightarrow> string \<Rightarrow> pyval option" where
  "demo_neo approach = Map.empty(''name'' \<mapsto> PyStr ''(2025 AB)'',
                                 ''close_approach_date'' \<mapsto> PyStr approach)"


subsection \<open>A sky\<close>

text \<open>
  The clock reads \<open>demo_now\<close>.  The parser knows one string.  \<open>ts.from_datetime\<close> rejects a
  naive value.  The ephemeris has only the nine bodies of the dict literal and covers the
  instants up to 5000: beyond, every observation raises (Skyfield's EphemerisRangeError
  is a ValueError).  The Sun stands 20 degrees below the horizon, every other body 35
  degrees above.  The call of \<open>planetary_magnitude\<close> with four arguments and the call of
  \<open>get_constellation\<close> with two floats raise TypeError.  The Moon's ecliptic longitude is
  a tenth of the instant, the Sun's is 0.
\<close>

definition demo_now :: datetime where
  "demo_now = \<lparr> wall = 1000, tzinfo = Some 0 \<rparr>"

definition demo_sky :: "(real \<times> real \<times> real, datetime, string \<times> datetime) skyfield" where
  "demo_sky =
     \<lparr> now_utc = demo_now,
       fromisoformat = (\<lambda>s. if s = ''2025-06-01T00:00:00+00:00''
                            then Inr \<lparr> wall = 900, tzinfo = Some 0 \<rparr>
                            else Inl ValueError),
       latlon = (\<lambda>lat lon el. Inr (lat, lon, el)),
       from_datetime = (\<lambda>d. if tzinfo d = None then Inl ValueError else Inr d),
       ephemeris_has = (\<lambda>k. False),
       observe = (\<lambda>obs t body. if 5000 < wall t then Inl ValueError else Inr (body, t)),
       altaz = (\<lambda>pos. Inr (if fst pos = ''Sun'' then - 20 else 35, 180)),
       radec = (\<lambda>pos. Inr (5.5, - 12.25)),
       planetary_magnitude = (\<lambda>body pos t. Inl TypeError),
       get_constellation = (\<lambda>ra dec. Inl TypeError),
       ecliptic_lon = (\<lambda>t body. Inr (if body = ''moon'' then of_int (wall t) / 10 else 0)),
       distance_km = (\<lambda>t body. Inr 384400),
       strftime_ymd = (\<lambda>d. ''2025-06-01'') \<rparr>"


subsection \<open>A sky that turns, and calls through the cache\<close>

text \<open>
  \<open>moving_sky w\<close> is a sky whose clock reads \<open>w\<close> and whose altitudes depend on where and
  when: a body stands at the observer's latitude less 5.7128 degrees, the Sun 55 degrees
  lower, and everything rises by a degree every 100 units of time after 1000.
\<close>

definition moving_sky :: "int \<Rightarrow> (real \<times> real \<times> real, datetime, string \<times> real \<times> int) skyfield" where
  "moving_sky w =
     \<lparr> now_utc = \<lparr> wall = w, tzinfo = Some 0 \<rparr>,
       fromisoformat = (\<lambda>s. Inl ValueError),
       latlon = (\<lambda>lat lon el. Inr (lat, lon, el)),
       from_datetime = (\<lambda>d. if tzinfo d = None then Inl ValueError else Inr d),
       ephemeris_has = (\<lambda>k. False),
       observe = (\<lambda>obs t body. Inr (body, fst obs, wall t)),
       altaz = (\<lambda>pos. Inr ((if fst pos = ''Sun'' then - 55 else 0) + fst (snd pos) - 5.7128
                             + (of_int (snd (snd pos)) - 1000) / 100, 180)),
       radec = (\<lambda>pos. Inr (5.5, - 12.25)),
       planetary_magnitude = (\<lambda>body pos t. Inl TypeError),
       get_constellation = (\<lambda>ra dec. Inl TypeError),
       ecliptic_lon = (\<lambda>t body. Inr 0),
       distance_km = (\<lambda>t body. Inr 384400),
       strftime_ymd = (\<lambda>d. ''2025-06-01'') \<rparr>"

text \<open>Two JSON libraries for lists of records.  \<open>plain_json\<close> reads every list back as it
  was.  \<open>numpy_json\<close> is \<open>json.dump\<close> on what Skyfield returns: the \<open>negative\<close> entries of
  the coordinate dicts are comparisons of numpy floats, numpy bools, on which the dump
  raises TypeError; a list without coordinates is read back as it was.  Both take the
  argument string itself for its digest: different strings give different keys.\<close>

definition plain_json :: "planet_data list pylib" where
  "plain_json = \<lparr> md5_hexdigest = (\<lambda>s. s), json_roundtrip = Inr \<rparr>"

definition numpy_json :: "planet_data list pylib" where
  "numpy_json =
     \<lparr> md5_hexdigest = (\<lambda>s. s),
       json_roundtrip =
         (\<lambda>ps. if list_ex (\<lambda>p. case pd_rightAscension p of None \<Rightarrow> False | Some c \<Rightarrow> True) ps
               then Inl TypeError else Inr ps) \<rparr>"

text \<open>A string of the arguments as written: \<open>None\<close> for an omitted location, the whole
  degrees or metres of a given one.\<close>

definition demo_repr :: "visible_planets_call \<Rightarrow> string" where
  "demo_repr c =
     (case arg_latitude c of None \<Rightarrow> ''None'' | Some x \<Rightarrow> str_nat (nat \<lfloor>\<bar>x\<bar>\<rfloor>)) @ '',''
     @ (case arg_longitude c of None \<Rightarrow> ''None'' | Some x \<Rightarrow> str_nat (nat \<lfloor>\<bar>x\<bar>\<rfloor>)) @ '',''
     @ (case arg_elevation c of None \<Rightarrow> ''None'' | Some x \<Rightarrow> str_nat (nat \<lfloor>\<bar>x\<bar>\<rfloor>)) @ '',''
     @ (case arg_time c of None \<Rightarrow> ''None'' | Some (TimeStr s) \<Rightarrow> s | Some (TimeObj d) \<Rightarrow> ''datetime'')
     @ '','' @ (if arg_show_coords c then ''True'' else ''False'')
     @ '','' @ (if arg_above_horizon c then ''True'' else ''False'')"

definition empty_planet_cache :: "planet_data list cache_state" where
  "empty_planet_cache = \<lparr> files = (\<lambda>k. None), calls = 0 \<rparr>"

text \<open>Five calls: location and time omitted; the default location written out; the
  default call with coordinates; New York at 10 metres with a time string that is no
  time; latitude 50 with longitude and elevation omitted.\<close>

definition call_omitted :: visible_planets_call where
  "call_omitted =
     \<lparr> arg_latitude = None, arg_longitude = None, arg_elevation = None, arg_time = None,
       arg_show_coords = False, arg_above_horizon = False, arg_use_offline_mode = False \<rparr>"

definition call_defaults :: visible_planets_call where
  "call_defaults =
     \<lparr> arg_latitude = Some 40.7128, arg_longitude = Some (- 74.0060), arg_elevation = Some 0,
       arg_time = None,
       arg_show_coords = False, arg_above_horizon = False, arg_use_offline_mode = False \<rparr>"


definition call_bad_time :: visible_planets_call where
  "call_bad_time =
     \<lparr> arg_latitude = Some 40.7128, arg_longitude = Some (- 74.0060), arg_elevation = Some 10,
       arg_time = Some (TimeStr ''not-a-time''),
       arg_show_coords = False, arg_above_horizon = False, arg_use_offline_mode = False \<rparr>"

definition call_north :: visible_planets_call where
  "call_north =
     \<lparr> arg_latitude = Some 50, arg_longitude = None, arg_elevation = None, arg_time = None,
       arg_show_coords = False, arg_above_horizon = False, arg_use_offline_mode = False \<rparr>"


section \<open>Properties of astronomy\_utils\<close>

subsection \<open>Visibility is monotone\<close>

lemma is_planet_visible_iff:
  "is_planet_visible altitude (Some m) min_altitude max_magnitude =
     (min_altitude \<le> altitude \<and>
      (case max_magnitude of None \<Rightarrow> True
       | Some mx \<Rightarrow> m \<le> mx \<and> (altitude < 10 \<longrightarrow> m + (10 - altitude) * 0.2 \<le> mx)))"
  by (auto simp: is_planet_visible_def Let_def split: option.splits)

text \<open>
  Claim C6.  For fixed \<open>min_altitude\<close> and \<open>max_magnitude\<close>: if a body at altitude
  \<open>altitude\<close> with magnitude \<open>magnitude\<close> is visible, then it is still visible at every
  altitude \<open>altitude' \<ge> altitude\<close> and every magnitude \<open>magnitude' \<le> magnitude\<close>.
\<close>

theorem is_planet_visible_monotone:
  assumes "is_planet_visible altitude (Some magnitude) min_altitude max_magnitude"
    and "altitude \<le> altitude'"
    and "magnitude' \<le> magnitude"
  shows "is_planet_visible altitude' (Some magnitude') min_altitude max_magnitude"
proof (cases max_magnitude)
  case None
  with assms show ?thesis by (simp add: is_planet_visible_iff)
next
  case (Some mx)
  from assms Some have lo: "min_altitude \<le> altitude" and m: "magnitude \<le> mx"
    and ext: "altitude < 10 \<longrightarrow> magnitude + (10 - altitude) * 0.2 \<le> mx"
    by (simp_all add: is_planet_visible_iff)
  have "altitude' < 10 \<longrightarrow> magnitude' + (10 - altitude') * 0.2 \<le> mx"
  proof
    assume "altitude' < 10"
    with assms(2) ext have "magnitude + (10 - altitude) * 0.2 \<le> mx" by simp
    moreover from assms(2) have "(10 - altitude') * 0.2 \<le> (10 - altitude) * 0.2" by simp
    ultimately show "magnitude' + (10 - altitude') * 0.2 \<le> mx"
      using assms(3) by linarith
  qed
  with lo m assms(2,3) Some show ?thesis by (simp add: is_planet_visible_iff)
qed

theorem is_planet_visible_monotone_witness:
  "is_planet_visible 5 (Some 1) 0 (Some 3) \<and> (5::real) \<le> 20 \<and> (0::real) \<le> 1
   \<and> is_planet_visible 20 (Some 0) 0 (Some 3)"
proof -
  have a: "is_planet_visible 5 (Some 1) 0 (Some 3)"
    by (simp add: is_planet_visible_def)
  have b: "(5::real) \<le> 20" and c: "(0::real) \<le> 1" by simp_all
  from is_planet_visible_monotone [OF a b c] a b c show ?thesis by simp
qed

subsection \<open>Compass direction of an azimuth\<close>

lemma min_from_mem: "min_from key b xs \<in> set (b # xs)"
proof (induction xs arbitrary: b)
  case Nil
  show ?case by simp
next
  case (Cons y ys)
  have "min_from key (if key y < key b then y else b) ys \<in> set ((if key y < key b then y else b) # ys)"
    by (rule Cons.IH)
  then show ?case by (auto split: if_splits)
qed

lemma min_from_le_best: "key (min_from key b xs) \<le> key b"
proof (induction xs arbitrary: b)
  case Nil
  show ?case by simp
next
  case (Cons y ys)
  have "key (min_from key (if key y < key b then y else b) ys) \<le> key (if key y < key b then y else b)"
    by (rule Cons.IH)
  then show ?case by (simp split: if_splits)
qed

lemma min_from_le: "x \<in> set xs \<Longrightarrow> key (min_from key b xs) \<le> key x"
proof (induction xs arbitrary: b)
  case Nil
  then show ?case by simp
next
  case (Cons y ys)
  let ?b = "if key y < key b then y else b"
  show ?case
  proof (cases "x = y")
    case True
    have "key (min_from key ?b ys) \<le> key ?b" by (rule min_from_le_best)
    also have "key ?b \<le> key y" by simp
    finally show ?thesis using True by simp
  next
    case False
    with Cons.prems have "x \<in> set ys" by simp
    then have "key (min_from key ?b ys) \<le> key x" by (rule Cons.IH)
    then show ?thesis by simp
  qed
qed

lemma py_fmod_range:
  assumes "0 < m"
  shows "0 \<le> py_fmod x m" and "py_fmod x m < m"
proof -
  have 1: "of_int \<lfloor>x / m\<rfloor> * m \<le> x"
    by (rule iffD1[OF pos_le_divide_eq[OF assms] of_int_floor_le])
  have "x / m < of_int \<lfloor>x / m\<rfloor> + 1" by linarith
  then have 2: "x < (of_int \<lfloor>x / m\<rfloor> + 1) * m"
    by (rule iffD1[OF pos_divide_less_eq[OF assms]])
  from 1 show "0 \<le> py_fmod x m" by (simp add: py_fmod_def mult.commute)
  from 2 show "py_fmod x m < m" by (simp add: py_fmod_def algebra_simps)
qed

lemma keys_eq: "map fst AZIMUTH_DIRECTIONS = [0, 45, 90, 135, 180, 225, 270, 315, 360]"
  by (simp add: AZIMUTH_DIRECTIONS_def)

lemma near_key:
  assumes "0 \<le> a" "a < 360"
  shows "\<exists>k \<in> set (map fst AZIMUTH_DIRECTIONS). \<bar>real_of_int k - a\<bar> \<le> 22.5"
proof -
  consider "a \<le> 22.5" | "22.5 \<le> a \<and> a \<le> 67.5" | "67.5 \<le> a \<and> a \<le> 112.5" | "112.5 \<le> a \<and> a \<le> 157.5"
    | "157.5 \<le> a \<and> a \<le> 202.5" | "202.5 \<le> a \<and> a \<le> 247.5" | "247.5 \<le> a \<and> a \<le> 292.5"
    | "292.5 \<le> a \<and> a \<le> 337.5" | "337.5 \<le> a" by linarith
  then show ?thesis
  proof cases
    case 1
    with assms have "\<bar>real_of_int 0 - a\<bar> \<le> 22.5" by (simp add: abs_if)
    then show ?thesis unfolding keys_eq by (intro bexI[of _ 0]) simp_all
  next
    case 2
    then have "\<bar>real_of_int 45 - a\<bar> \<le> 22.5" by (simp add: abs_if)
    then show ?thesis unfolding keys_eq by (intro bexI[of _ 45]) simp_all
  next
    case 3
    then have "\<bar>real_of_int 90 - a\<bar> \<le> 22.5" by (simp add: abs_if)
    then show ?thesis unfolding keys_eq by (intro bexI[of _ 90]) simp_all
  next
    case 4
    then have "\<bar>real_of_int 135 - a\<bar> \<le> 22.5" by (simp add: abs_if)
    then show ?thesis unfolding keys_eq by (intro bexI[of _ 135]) simp_all
  next
    case 5
    then have "\<bar>real_of_int 180 - a\<bar> \<le> 22.5" by (simp add: abs_if)
    then show ?thesis unfolding keys_eq by (intro bexI[of _ 180]) simp_all
  next
    case 6
    then have "\<bar>real_of_int 225 - a\<bar> \<le> 22.5" by (simp add: abs_if)
    then show ?thesis unfolding keys_eq by (intro bexI[of _ 225]) simp_all
  next
    case 7
    then have "\<bar>real_of_int 270 - a\<bar> \<le> 22.5" by (simp add: abs_if)
    then show ?thesis unfolding keys_eq by (intro bexI[of _ 270]) simp_all
  next
    case 8
    then have "\<bar>real_of_int 315 - a\<bar> \<le> 22.5" by (simp add: abs_if)
    then show ?thesis unfolding keys_eq by (intro bexI[of _ 315]) simp_all
  next
    case 9
    with assms have "\<bar>real_of_int 360 - a\<bar> \<le> 22.5" by (simp add: abs_if)
    then show ?thesis unfolding keys_eq by (intro bexI[of _ 360]) simp_all
  qed
qed

lemma py_min_nonempty:
  "py_min key (x # xs) = Inr (min_from key x xs)"
  by (simp add: py_min_def)

lemma closest_within:
  obtains c where "py_min (\<lambda>x. \<bar>real_of_int x - py_fmod az 360\<bar>) (map fst AZIMUTH_DIRECTIONS) = Inr c"
    and "c \<in> set (map fst AZIMUTH_DIRECTIONS)"
    and "\<bar>py_fmod az 360 - real_of_int c\<bar> \<le> 22.5"
proof -
  define a where "a = py_fmod az 360"
  define key where "key = (\<lambda>x. \<bar>real_of_int x - a\<bar>)"
  define rest where "rest = [45, 90, 135, 180, 225, 270, 315, 360::int]"
  define c where "c = min_from key 0 rest"
  have keys: "map fst AZIMUTH_DIRECTIONS = 0 # rest"
    by (simp add: keys_eq rest_def)
  have r: "0 \<le> a" "a < 360" by (simp_all add: a_def py_fmod_range)
  have 1: "py_min key (map fst AZIMUTH_DIRECTIONS) = Inr c"
    unfolding keys c_def by (rule py_min_nonempty)
  have 2: "c \<in> set (map fst AZIMUTH_DIRECTIONS)"
    unfolding keys c_def by (rule min_from_mem)
  from near_key[OF r] obtain k where k: "k \<in> set (0 # rest)" "key k \<le> 22.5"
    unfolding keys key_def by blast
  have "key c \<le> key k"
  proof (cases "k = 0")
    case True
    have "key c \<le> key 0" unfolding c_def by (rule min_from_le_best)
    with True show ?thesis by (simp only:)
  next
    case False
    with k(1) have "k \<in> set rest" by simp
    then show ?thesis unfolding c_def by (rule min_from_le)
  qed
  with k(2) have "key c \<le> 22.5" by linarith
  then have 3: "\<bar>a - real_of_int c\<bar> \<le> 22.5" by (simp add: key_def abs_minus_commute)
  from 1 2 3 show ?thesis unfolding key_def a_def by (rule that)
qed

lemma dict_get_keys:
  assumes "c \<in> set (map fst AZIMUTH_DIRECTIONS)"
  shows "dict_get AZIMUTH_DIRECTIONS c \<in> Inr ` {''North'', ''Northeast'', ''East'', ''Southeast'',
            ''South'', ''Southwest'', ''West'', ''Northwest''}"
proof -
  from assms have "c = 0 \<or> c = 45 \<or> c = 90 \<or> c = 135 \<or> c = 180 \<or> c = 225 \<or> c = 270 \<or> c = 315 \<or> c = 360"
    unfolding keys_eq by simp
  then show ?thesis
    by (elim disjE) (simp_all add: dict_get_def AZIMUTH_DIRECTIONS_def)
qed

lemma get_azimuth_direction_closest:
  assumes "py_min (\<lambda>x. \<bar>real_of_int x - py_fmod az 360\<bar>) (map fst AZIMUTH_DIRECTIONS) = Inr c"
    and "\<bar>py_fmod az 360 - real_of_int c\<bar> \<le> 22.5"
  shows "get_azimuth_direction az = dict_get AZIMUTH_DIRECTIONS c"
proof -
  from assms(2) have "\<not> 22.5 < \<bar>py_fmod az 360 - real_of_int c\<bar>" by linarith
  then show ?thesis unfolding get_azimuth_direction_def Let_def assms(1) by simp
qed

lemma get_azimuth_direction_single_label:
  "get_azimuth_direction az \<in> Inr ` {''North'', ''Northeast'', ''East'', ''Southeast'',
            ''South'', ''Southwest'', ''West'', ''Northwest''}"
proof -
  obtain c where c: "py_min (\<lambda>x. \<bar>real_of_int x - py_fmod az 360\<bar>) (map fst AZIMUTH_DIRECTIONS) = Inr c"
    "c \<in> set (map fst AZIMUTH_DIRECTIONS)" "\<bar>py_fmod az 360 - real_of_int c\<bar> \<le> 22.5"
    by (rule closest_within)
  have "get_azimuth_direction az = dict_get AZIMUTH_DIRECTIONS c"
    using c(1,3) by (rule get_azimuth_direction_closest)
  with dict_get_keys[OF c(2)] show ?thesis by simp
qed

lemma get_azimuth_direction_0: "get_azimuth_direction 0 = Inr ''North''"
proof -
  have m0: "py_fmod 0 360 = 0" by (simp add: py_fmod_def)
  have m1: "py_min (\<lambda>x. \<bar>real_of_int x - 0\<bar>) (map fst AZIMUTH_DIRECTIONS) = Inr 0"
    by (simp add: py_min_def AZIMUTH_DIRECTIONS_def)
  have d1: "dict_get AZIMUTH_DIRECTIONS 0 = Inr ''North''"
    by (simp add: dict_get_def AZIMUTH_DIRECTIONS_def)
  show ?thesis unfolding get_azimuth_direction_def Let_def m0 m1 by (simp add: d1)
qed

lemma get_azimuth_direction_45: "get_azimuth_direction 45 = Inr ''Northeast''"
proof -
  have m0: "py_fmod 45 360 = 45" by (simp add: py_fmod_def)
  have m1: "py_min (\<lambda>x. \<bar>real_of_int x - 45\<bar>) (map fst AZIMUTH_DIRECTIONS) = Inr 45"
    by (simp add: py_min_def AZIMUTH_DIRECTIONS_def)
  have d1: "dict_get AZIMUTH_DIRECTIONS 45 = Inr ''Northeast''"
    by (simp add: dict_get_def AZIMUTH_DIRECTIONS_def)
  show ?thesis unfolding get_azimuth_direction_def Let_def m0 m1 by (simp add: d1)
qed

lemma get_azimuth_direction_90: "get_azimuth_direction 90 = Inr ''East''"
proof -
  have m0: "py_fmod 90 360 = 90" by (simp add: py_fmod_def)
  have m1: "py_min (\<lambda>x. \<bar>real_of_int x - 90\<bar>) (map fst AZIMUTH_DIRECTIONS) = Inr 90"
    by (simp add: py_min_def AZIMUTH_DIRECTIONS_def)
  have d1: "dict_get AZIMUTH_DIRECTIONS 90 = Inr ''East''"
    by (simp add: dict_get_def AZIMUTH_DIRECTIONS_def)
  show ?thesis unfolding get_azimuth_direction_def Let_def m0 m1 by (simp add: d1)
qed

lemma get_azimuth_direction_135: "get_azimuth_direction 135 = Inr ''Southeast''"
proof -
  have m0: "py_fmod 135 360 = 135" by (simp add: py_fmod_def)
  have m1: "py_min (\<lambda>x. \<bar>real_of_int x - 135\<bar>) (map fst AZIMUTH_DIRECTIONS) = Inr 135"
    by (simp add: py_min_def AZIMUTH_DIRECTIONS_def)
  have d1: "dict_get AZIMUTH_DIRECTIONS 135 = Inr ''Southeast''"
    by (simp add: dict_get_def AZIMUTH_DIRECTIONS_def)
  show ?thesis unfolding get_azimuth_direction_def Let_def m0 m1 by (simp add: d1)
qed

text \<open>
  Claim C2, as the code has it.  \<open>get_azimuth_direction\<close> returns "North" for azimuth 0
  and "East" for azimuth 90; for azimuth 45 it returns the single label "Northeast", the
  table's own entry for 45 degrees.  (By \<open>get_azimuth_direction_single_label\<close> no azimuth
  at all yields a hyphenated composite: the nearest of the nine table keys is never more
  than 22.5 degrees away.)
\<close>

theorem get_azimuth_direction_principal_points:
  "get_azimuth_direction 0 = Inr ''North''
   \<and> get_azimuth_direction 90 = Inr ''East''
   \<and> get_azimuth_direction 45 = Inr ''Northeast''"
  by (simp only: get_azimuth_direction_0 get_azimuth_direction_90 get_azimuth_direction_45)

text \<open>
  Claim C2 as stated fails at azimuth 45: the result is not the composite of North and
  East and holds no hyphen.
\<close>

theorem get_azimuth_direction_45_not_composite:
  "get_azimuth_direction 45 \<noteq> Inr (''North'' @ ''-'' @ ''East'')
   \<and> get_azimuth_direction 45 \<noteq> Inr (''East'' @ ''-'' @ ''North'')
   \<and> get_azimuth_direction 45 = Inr ''Northeast''
   \<and> CHR ''-'' \<notin> set ''Northeast''"
  by (simp add: get_azimuth_direction_45)

subsection \<open>Sky position phrase\<close>

lemma format_1f_30: "format_1f 30 = ''30.0''"
  by (simp add: format_1f_def round_half_even_def digit_char_def Let_def)

lemma format_1f_75: "format_1f 75 = ''75.0''"
  by (simp add: format_1f_def round_half_even_def digit_char_def Let_def)

text \<open>
  Claim C9, as the code has it.  For every altitude, azimuth and language code the phrase
  is \<open>looking {direction}, {band} ({altitude:.1f} degrees)\<close>, where the direction is the
  (always defined) result of \<open>get_azimuth_direction\<close> and each band includes its lower bound
  and excludes its upper one: below the horizon for altitude < 0, low for [0, 15), at
  medium height for [15, 45), high for [45, 75), almost directly overhead from 75 on.
\<close>

theorem get_sky_position_description_phrase:
  "\<exists>direction band.
      get_azimuth_direction azimuth = Inr direction
    \<and> get_sky_position_description altitude azimuth language =
        Inr (''looking '' @ direction @ '', '' @ band @ '' ('' @ format_1f altitude
             @ [CHR 0xB0] @ '')'')
    \<and> (altitude < 0 \<longrightarrow> band = ''below the horizon'')
    \<and> (0 \<le> altitude \<and> altitude < 15 \<longrightarrow> band = ''low'')
    \<and> (15 \<le> altitude \<and> altitude < 45 \<longrightarrow> band = ''at medium height'')
    \<and> (45 \<le> altitude \<and> altitude < 75 \<longrightarrow> band = ''high'')
    \<and> (75 \<le> altitude \<longrightarrow> band = ''almost directly overhead'')"
proof -
  from get_azimuth_direction_single_label[of azimuth]
  obtain direction where d: "get_azimuth_direction azimuth = Inr direction" by blast
  have phrase: "get_sky_position_description altitude azimuth language =
        Inr (''looking '' @ direction @ '', '' @ get_altitude_description altitude @ '' (''
             @ format_1f altitude @ [CHR 0xB0] @ '')'')"
    by (simp add: get_sky_position_description_def d)
  have bands: "(altitude < 0 \<longrightarrow> get_altitude_description altitude = ''below the horizon'')
    \<and> (0 \<le> altitude \<and> altitude < 15 \<longrightarrow> get_altitude_description altitude = ''low'')
    \<and> (15 \<le> altitude \<and> altitude < 45 \<longrightarrow> get_altitude_description altitude = ''at medium height'')
    \<and> (45 \<le> altitude \<and> altitude < 75 \<longrightarrow> get_altitude_description altitude = ''high'')
    \<and> (75 \<le> altitude \<longrightarrow> get_altitude_description altitude = ''almost directly overhead'')"
    by (simp add: get_altitude_description_def)
  from d phrase bands show ?thesis by blast
qed

theorem get_sky_position_description_phrase_witness:
  "get_sky_position_description 30 135 ''en'' =
     Inr (''looking Southeast, at medium height (30.0'' @ [CHR 0xB0] @ '')'')"
proof -
  from get_sky_position_description_phrase[of 135 30 "''en''"]
  obtain direction band where
    d: "get_azimuth_direction 135 = Inr direction"
    and p: "get_sky_position_description 30 135 ''en'' =
        Inr (''looking '' @ direction @ '', '' @ band @ '' ('' @ format_1f 30
             @ [CHR 0xB0] @ '')'')"
    and b: "(15::real) \<le> 30 \<and> (30::real) < 45 \<longrightarrow> band = ''at medium height''"
    by blast
  from d have "direction = ''Southeast''" by (simp add: get_azimuth_direction_135)
  moreover from b have "band = ''at medium height''" by simp
  ultimately show ?thesis using p by (simp add: format_1f_30)
qed

text \<open>
  Claim C9 as stated fails at altitude 75, which is not above 75 and lies in the band the
  claim calls "high" (45 to 75): the code answers "almost directly overhead".
\<close>

theorem get_sky_position_description_at_75:
  "get_sky_position_description 75 0 ''en'' =
     Inr (''looking North, almost directly overhead (75.0'' @ [CHR 0xB0] @ '')'')
   \<and> get_altitude_description 75 \<noteq> ''high''
   \<and> \<not> (75 < (75::real))"
  by (simp add: get_sky_position_description_def get_azimuth_direction_0
      get_altitude_description_def format_1f_75)

section \<open>Properties of the result cache\<close>

lemma planets_api_has_hashlib: "global_name planets_api ''hashlib'' = Inr ()"
  by (simp add: global_name_def planets_api_def)

lemma planets_api_has_time: "global_name planets_api ''time'' = Inr ()"
  by (simp add: global_name_def planets_api_def)

lemma astronomy_utils_lacks_hashlib: "global_name astronomy_utils ''hashlib'' = Inl (NameError ''hashlib'')"
  by (simp add: global_name_def astronomy_utils_def)

lemma planets_api_key:
  "generate_cache_key planets_api md5 func_name args_str = Inr (func_name @ ''_'' @ md5 args_str)"
  by (simp add: generate_cache_key_def planets_api_has_hashlib)

lemma planets_api_enabled: "CACHE_ENABLED planets_api" "CACHE_DURATION planets_api = 300"
  by (simp_all add: planets_api_def)

lemma astronomy_utils_enabled: "CACHE_ENABLED astronomy_utils"
  by (simp add: astronomy_utils_def)

lemma cache_result_miss:
  assumes "cache_lookup planets_api io (files st (func_name @ ''_'' @ md5_hexdigest lib (repr_call args))) = None"
    and "func args = Inr r"
  shows "cache_result planets_api lib func_name repr_call func io args st =
           (Inr r, st\<lparr>calls := calls st + 1,
                      files := cache_store planets_api lib io
                                 (func_name @ ''_'' @ md5_hexdigest lib (repr_call args)) r (files st)\<rparr>)"
  using assms by (simp add: cache_result_def planets_api_key planets_api_enabled)

lemma cache_result_hit:
  assumes "cache_lookup planets_api io (files st (func_name @ ''_'' @ md5_hexdigest lib (repr_call args))) = Some r"
  shows "cache_result planets_api lib func_name repr_call func io args st = (Inr r, st)"
  using assms by (simp add: cache_result_def planets_api_key planets_api_enabled)

lemma cache_store_ok:
  assumes "\<not> open_fails io" "\<not> dump_fails io" "json_roundtrip lib r = Inr r'"
  shows "cache_store planets_api lib io k r fs = fs(k \<mapsto> Entry r' (now_store io))"
  using assms by (simp add: cache_store_def planets_api_has_time)

lemma cache_lookup_fresh:
  assumes "\<not> read_fails io" "now_check io - t \<le> 300"
  shows "cache_lookup planets_api io (Some (Entry r t)) = Some r"
  using assms by (simp add: cache_lookup_def planets_api_has_time planets_api_enabled)

text \<open>An entry older than the TTL is not used, and an unwritable directory leaves the
  state as it was: the next call computes again.\<close>

lemma cache_lookup_expired:
  assumes "300 < now_check io - t"
  shows "cache_lookup planets_api io (Some (Entry r t)) = None"
  using assms by (simp add: cache_lookup_def planets_api_has_time planets_api_enabled)

lemma cache_store_unwritable:
  assumes "open_fails io"
  shows "cache_store M lib io k r fs = fs"
  using assms by (simp add: cache_store_def)



text \<open>
  Claim C5 fails for astronomy\_utils.  The module never imports \<open>hashlib\<close>, and
  \<open>_generate_cache_key\<close> is called outside every \<open>try\<close>: each call of a function wrapped by
  astronomy\_utils' \<open>cache_result\<close> raises NameError to the caller, before the wrapped
  function is run and whatever the state of the cache directory.
\<close>

theorem astronomy_utils_cache_result_raises:
  "cache_result astronomy_utils lib func_name repr_call func io args st = (Inl (NameError ''hashlib''), st)"
  by (simp add: cache_result_def generate_cache_key_def astronomy_utils_lacks_hashlib astronomy_utils_enabled)

text \<open>
  In planets\_api, which imports \<open>hashlib\<close> and \<open>time\<close>, no failure of the cache layer reaches
  the caller: a call returns what the wrapped function returns, or the payload of an
  entry that is still valid.
\<close>

lemma planets_api_cache_failures_bypassed:
  "fst (cache_result planets_api lib func_name repr_call func io args st) = func args
   \<or> (\<exists>r t. files st (func_name @ ''_'' @ md5_hexdigest lib (repr_call args)) = Some (Entry r t)
          \<and> now_check io - t \<le> 300
          \<and> fst (cache_result planets_api lib func_name repr_call func io args st) = Inr r)"
proof (cases "cache_lookup planets_api io (files st (func_name @ ''_'' @ md5_hexdigest lib (repr_call args)))")
  case None
  then show ?thesis
    by (cases "func args") (simp_all add: cache_result_def planets_api_key planets_api_enabled)
next
  case (Some r)
  then obtain t where "files st (func_name @ ''_'' @ md5_hexdigest lib (repr_call args)) = Some (Entry r t)"
    "now_check io - t \<le> 300"
    by (auto simp: cache_lookup_def planets_api_enabled split: option.splits if_splits cache_file.splits sum.splits)
  moreover from Some have "cache_result planets_api lib func_name repr_call func io args st = (Inr r, st)"
    by (rule cache_result_hit)
  ultimately show ?thesis by simp
qed

section \<open>Properties of the near-Earth-object estimate\<close>

lemma compass_azimuth_direction_azimuth:
  assumes "direction \<in> set [''North'', ''Northeast'', ''East'', ''Southeast'', ''South'', ''Southwest'',
                         ''West'', ''Northwest'']"
  shows "map_of compass_azimuth direction = Some (direction_azimuth direction)"
proof -
  from assms have "direction = ''North'' \<or> direction = ''Northeast'' \<or> direction = ''East''
    \<or> direction = ''Southeast'' \<or> direction = ''South'' \<or> direction = ''Southwest''
    \<or> direction = ''West'' \<or> direction = ''Northwest''"
    by simp
  then show ?thesis
    by (elim disjE) (simp_all add: compass_azimuth_def direction_azimuth_def)
qed

lemma random_choice_mem:
  assumes "xs \<noteq> []"
  shows "\<exists>d. d \<in> set xs \<and> random_choice draw xs = Inr d"
proof -
  from assms have "draw mod length xs < length xs" by simp
  then have "xs ! (draw mod length xs) \<in> set xs" by (rule nth_mem)
  with assms show ?thesis by (simp add: random_choice_def)
qed

lemma possible_directions_choice:
  "\<exists>d. random_choice draw (possible_directions latitude) = Inr d
      \<and> d \<in> set [''North'', ''Northeast'', ''East'', ''Southeast'', ''South'', ''Southwest'',
                    ''West'', ''Northwest'']"
proof -
  have ne: "possible_directions latitude \<noteq> []" by (simp add: possible_directions_def)
  from random_choice_mem[OF ne, of draw]
  obtain d where d: "d \<in> set (possible_directions latitude)"
    and r: "random_choice draw (possible_directions latitude) = Inr d" by (elim exE conjE)
  from d have "d \<in> set [''North'', ''Northeast'', ''East'', ''Southeast'', ''South'', ''Southwest'',
                    ''West'', ''Northwest'']"
    by (simp add: possible_directions_def split: if_splits; elim disjE; simp)
  with r show ?thesis by (intro exI conjI)
qed

lemma random_randint_range:
  assumes "a \<le> b"
  shows "a \<le> random_randint draw a b" and "random_randint draw a b \<le> b"
proof -
  from assms have n: "0 < b - a + 1" by simp
  from pos_mod_sign[OF n, of "int draw"] show "a \<le> random_randint draw a b"
    by (simp add: random_randint_def)
  from pos_mod_bound[OF n, of "int draw"] show "random_randint draw a b \<le> b"
    by (simp add: random_randint_def)
qed

text \<open>
  Claim C3.  For a record whose \<open>close_approach_date\<close> is a date string: when the date is
  more than 7 days from today, in either direction, the result is not visible and its
  reason cites the number of days; otherwise (the date being today included) the result
  is visible, and its azimuth is the canonical azimuth of its compass direction under the
  fixed mapping.  This holds for every latitude and longitude and for every outcome of
  the two random draws.
\<close>

theorem get_neo_visibility_window:
  assumes date_field: "neo_data ''close_approach_date'' = Some (PyStr s)"
    and parsed: "strptime_date w s = Inr approach_date"
  shows "(7 < \<bar>approach_date - today w\<bar> \<longrightarrow>
            get_neo_visibility w neo_data latitude longitude =
              Inr (NotVisible (''Not visible: approach date is ''
                               @ str_nat (nat \<bar>approach_date - today w\<bar>)
                               @ '' days away from today'')))
       \<and> (\<bar>approach_date - today w\<bar> \<le> 7 \<longrightarrow>
            (\<exists>direction elevation azimuth note.
                get_neo_visibility w neo_data latitude longitude =
                  Inr (Visible direction elevation azimuth note)
              \<and> map_of compass_azimuth direction = Some azimuth))"
proof (intro conjI impI)
  assume "7 < \<bar>approach_date - today w\<bar>"
  then show "get_neo_visibility w neo_data latitude longitude =
              Inr (NotVisible (''Not visible: approach date is ''
                               @ str_nat (nat \<bar>approach_date - today w\<bar>)
                               @ '' days away from today''))"
    unfolding get_neo_visibility_def Let_def date_field parsed option.case pyval.case sum.case
    by (simp only: if_True)
next
  assume near: "\<bar>approach_date - today w\<bar> \<le> 7"
  from possible_directions_choice[of "choice_draw w" latitude]
  obtain d where d: "random_choice (choice_draw w) (possible_directions latitude) = Inr d"
    and mem: "d \<in> set [''North'', ''Northeast'', ''East'', ''Southeast'', ''South'', ''Southwest'',
                    ''West'', ''Northwest'']"
    by (elim exE conjE)
  from near have not_far: "\<not> 7 < \<bar>approach_date - today w\<bar>" by simp
  have v: "get_neo_visibility w neo_data latitude longitude =
          Inr (Visible d (random_randint (randint_draw w) 20 60) (direction_azimuth d) visibility_note)"
    unfolding get_neo_visibility_def Let_def date_field parsed option.case pyval.case sum.case
      if_not_P[OF not_far] d
    by (rule refl)
  have m: "map_of compass_azimuth d = Some (direction_azimuth d)"
    using mem by (rule compass_azimuth_direction_azimuth)
  from v m show "\<exists>direction elevation azimuth note.
                get_neo_visibility w neo_data latitude longitude =
                  Inr (Visible direction elevation azimuth note)
              \<and> map_of compass_azimuth direction = Some azimuth"
    by (intro exI conjI)
qed

theorem get_neo_visibility_window_witness:
  "get_neo_visibility demo_neo_world (demo_neo ''2025-01-11'') 40.7128 (- 74.0060)
     = Inr (NotVisible ''Not visible: approach date is 10 days away from today'')
   \<and> (\<exists>direction elevation azimuth note.
          get_neo_visibility demo_neo_world (demo_neo ''2025-01-01'') 40.7128 (- 74.0060)
            = Inr (Visible direction elevation azimuth note)
        \<and> map_of compass_azimuth direction = Some azimuth)"
proof -
  have f1: "demo_neo ''2025-01-11'' ''close_approach_date'' = Some (PyStr ''2025-01-11'')"
    and f2: "demo_neo ''2025-01-01'' ''close_approach_date'' = Some (PyStr ''2025-01-01'')"
    by (simp_all add: demo_neo_def)
  have p1: "strptime_date demo_neo_world ''2025-01-11'' = Inr 739262"
    and p2: "strptime_date demo_neo_world ''2025-01-01'' = Inr 739252"
    by (simp_all add: demo_neo_world_def)
  have t: "today demo_neo_world = 739252" by (simp add: demo_neo_world_def)
  have far: "7 < \<bar>739262 - today demo_neo_world\<bar>" and near: "\<bar>739252 - today demo_neo_world\<bar> \<le> 7"
    by (simp_all add: t)
  have s: "str_nat (nat \<bar>739262 - today demo_neo_world\<bar>) = ''10''"
    by (simp add: t digit_char_def)
  note w1 = get_neo_visibility_window[of "demo_neo ''2025-01-11''" "''2025-01-11''" demo_neo_world
         739262 "40.7128" "- 74.0060", OF f1 p1]
  note w2 = get_neo_visibility_window[of "demo_neo ''2025-01-01''" "''2025-01-01''" demo_neo_world
         739252 "40.7128" "- 74.0060", OF f2 p2]
  have "get_neo_visibility demo_neo_world (demo_neo ''2025-01-11'') 40.7128 (- 74.0060)
     = Inr (NotVisible (''Not visible: approach date is ''
                               @ str_nat (nat \<bar>739262 - today demo_neo_world\<bar>)
                               @ '' days away from today''))"
    by (rule mp[OF conjunct1[OF w1] far])
  then have a: "get_neo_visibility demo_neo_world (demo_neo ''2025-01-11'') 40.7128 (- 74.0060)
     = Inr (NotVisible ''Not visible: approach date is 10 days away from today'')"
    unfolding s by simp
  have b: "\<exists>direction elevation azimuth note.
          get_neo_visibility demo_neo_world (demo_neo ''2025-01-01'') 40.7128 (- 74.0060)
            = Inr (Visible direction elevation azimuth note)
        \<and> map_of compass_azimuth direction = Some azimuth"
    by (rule mp[OF conjunct2[OF w2] near])
  from a b show ?thesis by (rule conjI)
qed

text \<open>The sample record approaching today, evaluated.\<close>

lemma get_neo_visibility_demo_today: "get_neo_visibility demo_neo_world (demo_neo ''2025-01-01'') 40.7128 (- 74.0060)
   = Inr (Visible ''Southwest'' 38 225 visibility_note)"
  by (simp add: get_neo_visibility_def demo_neo_world_def demo_neo_def random_choice_def
      random_randint_def possible_directions_def direction_azimuth_def)

section \<open>Properties of planets\_api\<close>

subsection \<open>The observation time\<close>

lemma observation_time_malformed:
  assumes "fromisoformat sky (replace_Z s) = Inl ValueError"
  shows "observation_time sky (Some (TimeStr s)) = Inr (now_utc sky)"
  using assms by (simp add: observation_time_def)

lemma observation_time_None: "observation_time sky None = Inr (now_utc sky)"
  by (simp add: observation_time_def)

text \<open>
  The body of \<open>get_visible_planets\<close>.  A time string that \<open>datetime.fromisoformat\<close> rejects
  is not an error: the \<open>except ValueError\<close> branch logs a warning and takes the current
  time, so the body returns exactly what it returns without a time.
\<close>

lemma malformed_time_uses_current_time:
  assumes "fromisoformat sky (replace_Z s) = Inl ValueError"
  shows "get_visible_planets sky latitude longitude elevation (Some (TimeStr s)) show_coords
           above_horizon offline
         = get_visible_planets sky latitude longitude elevation None show_coords above_horizon
             offline"
  unfolding get_visible_planets_def observation_time_malformed[OF assms] observation_time_None
  by (rule refl)

lemma replace_Z_not_a_time: "replace_Z ''not-a-time'' = ''not-a-time''"
  by (simp add: replace_Z_def)

lemma demo_fromisoformat_not_a_time: "fromisoformat demo_sky (replace_Z ''not-a-time'') = Inl ValueError"
  by (simp add: replace_Z_not_a_time demo_sky_def)

lemma get_visible_planets_setup:
  assumes "observation_time sky time_arg = Inr d"
    and "latlon sky latitude longitude elevation = Inr observer"
    and "from_datetime sky d = Inr t"
  shows "get_visible_planets sky (Some latitude) (Some longitude) (Some elevation) time_arg
           show_coords above_horizon offline
         = Inr (if above_horizon
                then filter (\<lambda>p. 0 < pd_altitude p)
                       (collect_planets (planet_record sky observer t show_coords)
                          (PLANETS (ephemeris_has sky)))
                else collect_planets (planet_record sky observer t show_coords)
                       (PLANETS (ephemeris_has sky)))"
  using assms by (simp add: get_visible_planets_def Let_def)

lemma demo_setup:
  "observation_time demo_sky None = Inr demo_now"
  "latlon demo_sky lat lon el = Inr (lat, lon, el)"
  "from_datetime demo_sky demo_now = Inr demo_now"
  by (simp_all add: observation_time_def demo_sky_def demo_now_def)

lemma malformed_time_uses_current_time_demo:
  "get_visible_planets demo_sky (Some 40.7128) (Some (- 74.0060)) (Some 10)
      (Some (TimeStr ''not-a-time'')) False False False
   = get_visible_planets demo_sky (Some 40.7128) (Some (- 74.0060)) (Some 10) None False False False"
  by (rule malformed_time_uses_current_time[OF demo_fromisoformat_not_a_time])

text \<open>
  In the sample sky the string \<open>not-a-time\<close> is rejected by the parser, and the body does
  not raise; it returns the records computed at the current time \<open>demo_now\<close>.
\<close>

lemma malformed_time_is_not_an_error:
  "fromisoformat demo_sky (replace_Z ''not-a-time'') = Inl ValueError
   \<and> get_visible_planets demo_sky (Some 40.7128) (Some (- 74.0060)) (Some 10)
        (Some (TimeStr ''not-a-time'')) False False False
     = Inr (collect_planets (planet_record demo_sky (40.7128, - 74.0060, 10) demo_now False)
              (PLANETS (ephemeris_has demo_sky)))
   \<and> get_visible_planets demo_sky (Some 40.7128) (Some (- 74.0060)) (Some 10)
        (Some (TimeStr ''not-a-time'')) False False False \<noteq> Inl APIDataError"
proof -
  have t: "observation_time demo_sky (Some (TimeStr ''not-a-time'')) = Inr demo_now"
    using observation_time_malformed[OF demo_fromisoformat_not_a_time]
    by (simp add: demo_sky_def)
  have r: "get_visible_planets demo_sky (Some 40.7128) (Some (- 74.0060)) (Some 10)
        (Some (TimeStr ''not-a-time'')) False False False
     = Inr (collect_planets (planet_record demo_sky (40.7128, - 74.0060, 10) demo_now False)
              (PLANETS (ephemeris_has demo_sky)))"
    using get_visible_planets_setup[OF t demo_setup(2) demo_setup(3), of "40.7128" "- 74.0060" 10 False False False]
    by simp
  show ?thesis unfolding r using demo_fromisoformat_not_a_time by simp
qed

subsection \<open>The records of the Sun and the Moon\<close>

lemma collect_planets_mem:
  "p \<in> set (collect_planets calc bodies) \<longleftrightarrow> (\<exists>b. b \<in> set bodies \<and> calc b = Inr p)"
proof (induction bodies)
  case Nil
  show ?case by simp
next
  case (Cons body bodies)
  show ?case
  proof (cases "calc body")
    case (Inl e)
    then show ?thesis using Cons.IH by auto
  next
    case (Inr q)
    then show ?thesis using Cons.IH by auto
  qed
qed

lemma planet_record_fields:
  assumes "planet_record sky observer t show_coords body = Inr p"
  shows "pd_name p = body" and "pd_magnitude p = py_round (body_magnitude sky observer t body) 2"
  using assms
  by (auto simp: planet_record_def Let_def split: sum.splits prod.splits if_splits)

lemma planet_record_computed:
  assumes "observe sky observer t body = Inr pos"
    and "altaz sky pos = Inr (alt, az)"
    and "radec sky pos = Inr (ra, dec)"
  shows "\<exists>p. planet_record sky observer t show_coords body = Inr p \<and> pd_name p = body
            \<and> pd_altitude p = py_round alt 2 \<and> pd_azimuth p = py_round az 2"
  using assms by (simp add: planet_record_def Let_def)

lemma py_round_sun: "py_round (- 26.7) 2 = - 26.7"
  by (simp add: py_round_def round_half_even_def Let_def)

lemma py_round_moon: "py_round (- 12.5) 2 = - 12.5"
  by (simp add: py_round_def round_half_even_def Let_def)

lemma body_magnitude_sun: "body_magnitude sky observer t ''Sun'' = - 26.7"
  by (simp add: body_magnitude_def)

lemma body_magnitude_moon: "body_magnitude sky observer t ''Moon'' = - 12.5"
  by (simp add: body_magnitude_def)

lemma sun_moon_catalogued: "''Sun'' \<in> set (PLANETS has)" "''Moon'' \<in> set (PLANETS has)"
  by (simp_all add: PLANETS_def)

lemma get_visible_planets_Inr:
  assumes "get_visible_planets sky latitude0 longitude0 elevation0 time_arg show_coords
             above_horizon offline = Inr planets"
  obtains observer t where
    "planets = (if above_horizon
                then filter (\<lambda>p. 0 < pd_altitude p)
                       (collect_planets (planet_record sky observer t show_coords)
                          (PLANETS (ephemeris_has sky)))
                else collect_planets (planet_record sky observer t show_coords)
                       (PLANETS (ephemeris_has sky)))"
  using assms
  by (auto simp: get_visible_planets_def Let_def split: sum.splits)

lemma listed_record:
  assumes "get_visible_planets sky latitude0 longitude0 elevation0 time_arg show_coords
             above_horizon offline = Inr planets"
    and "p \<in> set planets"
  obtains observer t where "planet_record sky observer t show_coords (pd_name p) = Inr p"
proof -
  from assms(1) obtain observer t where
    pl: "planets = (if above_horizon
                then filter (\<lambda>p. 0 < pd_altitude p)
                       (collect_planets (planet_record sky observer t show_coords)
                          (PLANETS (ephemeris_has sky)))
                else collect_planets (planet_record sky observer t show_coords)
                       (PLANETS (ephemeris_has sky)))"
    by (rule get_visible_planets_Inr)
  from assms(2) have "p \<in> set (collect_planets (planet_record sky observer t show_coords)
                          (PLANETS (ephemeris_has sky)))"
    unfolding pl by (simp split: if_splits)
  then obtain b where b: "planet_record sky observer t show_coords b = Inr p"
    unfolding collect_planets_mem by (elim exE conjE)
  from planet_record_fields(1)[OF b] b have "planet_record sky observer t show_coords (pd_name p) = Inr p"
    by simp
  then show ?thesis by (rule that)
qed

lemma listed_magnitude:
  assumes "get_visible_planets sky latitude0 longitude0 elevation0 time_arg show_coords
             above_horizon offline = Inr planets"
    and "p \<in> set planets"
  shows "pd_name p = ''Sun'' \<longrightarrow> pd_magnitude p = - 26.7"
    and "pd_name p = ''Moon'' \<longrightarrow> pd_magnitude p = - 12.5"
proof -
  from assms obtain observer t where r: "planet_record sky observer t show_coords (pd_name p) = Inr p"
    by (rule listed_record)
  note m = planet_record_fields(2)[OF r]
  show "pd_name p = ''Sun'' \<longrightarrow> pd_magnitude p = - 26.7"
  proof
    assume "pd_name p = ''Sun''"
    with m show "pd_magnitude p = - 26.7" by (simp only: body_magnitude_sun py_round_sun)
  qed
  show "pd_name p = ''Moon'' \<longrightarrow> pd_magnitude p = - 12.5"
  proof
    assume "pd_name p = ''Moon''"
    with m show "pd_magnitude p = - 12.5" by (simp only: body_magnitude_moon py_round_moon)
  qed
qed

lemma unfiltered_appears:
  assumes prep: "observation_time sky time_arg = Inr d"
    "latlon sky latitude longitude elevation = Inr observer"
    "from_datetime sky d = Inr t"
    and cat: "body \<in> set (PLANETS (ephemeris_has sky))"
    and pos: "observe sky observer t body = Inr pos" "altaz sky pos = Inr (alt, az)"
      "radec sky pos = Inr (ra, dec)"
  shows "\<exists>planets p.
           get_visible_planets sky (Some latitude) (Some longitude) (Some elevation) time_arg
             show_coords False offline = Inr planets
         \<and> p \<in> set planets \<and> pd_name p = body \<and> pd_altitude p = py_round alt 2"
proof -
  let ?all = "collect_planets (planet_record sky observer t show_coords)
                (PLANETS (ephemeris_has sky))"
  have r: "get_visible_planets sky (Some latitude) (Some longitude) (Some elevation) time_arg
             show_coords False offline = Inr ?all"
    using get_visible_planets_setup[OF prep, of show_coords False offline] by simp
  from planet_record_computed[OF pos, of show_coords]
  obtain p where p: "planet_record sky observer t show_coords body = Inr p"
    "pd_name p = body" "pd_altitude p = py_round alt 2"
    by (elim exE conjE)
  from cat p(1) have "p \<in> set ?all" unfolding collect_planets_mem by (intro exI conjI)
  with r p(2,3) show ?thesis by (intro exI conjI)
qed

text \<open>
  Claim C7, as the code has it.  In every list that \<open>get_visible_planets\<close> returns, a record
  named Sun has magnitude exactly -26.7 and a record named Moon exactly -12.5, for every
  observer, instant and option.  With \<open>above_horizon = False\<close> the record of the Sun, and
  of the Moon, is in the list whatever the body's altitude, provided the position of that
  body was computed: a body whose computation raises is logged and left out.
\<close>

theorem sun_and_moon_records:
  "(get_visible_planets sky latitude0 longitude0 elevation0 time_arg0 show_coords0 above_horizon
      offline0 = Inr listed
    \<longrightarrow> (\<forall>p \<in> set listed. (pd_name p = ''Sun'' \<longrightarrow> pd_magnitude p = - 26.7)
                           \<and> (pd_name p = ''Moon'' \<longrightarrow> pd_magnitude p = - 12.5)))
   \<and> (observation_time sky time_arg = Inr d
      \<and> latlon sky latitude longitude elevation = Inr observer
      \<and> from_datetime sky d = Inr t
      \<and> (body = ''Sun'' \<or> body = ''Moon'')
      \<and> observe sky observer t body = Inr pos
      \<and> altaz sky pos = Inr (alt, az)
      \<and> radec sky pos = Inr (ra, dec)
    \<longrightarrow> (\<exists>planets p.
           get_visible_planets sky (Some latitude) (Some longitude) (Some elevation) time_arg
             show_coords False offline = Inr planets
         \<and> p \<in> set planets \<and> pd_name p = body \<and> pd_altitude p = py_round alt 2
         \<and> pd_magnitude p = (if body = ''Sun'' then - 26.7 else - 12.5)))"
proof (intro conjI impI ballI)
  fix p
  assume a: "get_visible_planets sky latitude0 longitude0 elevation0 time_arg0 show_coords0
               above_horizon offline0 = Inr listed" and p: "p \<in> set listed"
  { assume "pd_name p = ''Sun''"
    with listed_magnitude(1)[OF a p] show "pd_magnitude p = - 26.7" by (rule mp) }
  { assume "pd_name p = ''Moon''"
    with listed_magnitude(2)[OF a p] show "pd_magnitude p = - 12.5" by (rule mp) }
next
  assume h: "observation_time sky time_arg = Inr d
      \<and> latlon sky latitude longitude elevation = Inr observer
      \<and> from_datetime sky d = Inr t
      \<and> (body = ''Sun'' \<or> body = ''Moon'')
      \<and> observe sky observer t body = Inr pos
      \<and> altaz sky pos = Inr (alt, az)
      \<and> radec sky pos = Inr (ra, dec)"
  then have prep: "observation_time sky time_arg = Inr d"
    "latlon sky latitude longitude elevation = Inr observer" "from_datetime sky d = Inr t"
    and body: "body = ''Sun'' \<or> body = ''Moon''"
    and pos: "observe sky observer t body = Inr pos" "altaz sky pos = Inr (alt, az)"
      "radec sky pos = Inr (ra, dec)"
    by (simp_all only:)
  from body have cat: "body \<in> set (PLANETS (ephemeris_has sky))"
    by (elim disjE) (simp_all only: sun_moon_catalogued)
  from unfiltered_appears[OF prep cat pos, of show_coords offline]
  obtain planets p where r: "get_visible_planets sky (Some latitude) (Some longitude)
        (Some elevation) time_arg show_coords False offline = Inr planets"
    and p: "p \<in> set planets" "pd_name p = body" "pd_altitude p = py_round alt 2"
    by (elim exE conjE)
  from body have "pd_magnitude p = (if body = ''Sun'' then - 26.7 else - 12.5)"
  proof
    assume b: "body = ''Sun''"
    with p(2) have "pd_name p = ''Sun''" by simp
    with listed_magnitude(1)[OF r p(1)] have "pd_magnitude p = - 26.7" by (rule mp)
    with b show ?thesis by simp
  next
    assume b: "body = ''Moon''"
    with p(2) have "pd_name p = ''Moon''" by simp
    with listed_magnitude(2)[OF r p(1)] have "pd_magnitude p = - 12.5" by (rule mp)
    with b show ?thesis by simp
  qed
  with r p show "\<exists>planets p.
           get_visible_planets sky (Some latitude) (Some longitude) (Some elevation) time_arg
             show_coords False offline = Inr planets
         \<and> p \<in> set planets \<and> pd_name p = body \<and> pd_altitude p = py_round alt 2
         \<and> pd_magnitude p = (if body = ''Sun'' then - 26.7 else - 12.5)"
    by (intro exI conjI)
qed

lemma py_round_minus_20: "py_round (- 20) 2 = - 20"
  by (simp add: py_round_def round_half_even_def Let_def)

lemma py_round_35: "py_round 35 2 = 35"
  by (simp add: py_round_def round_half_even_def Let_def)

lemma demo_observe:
  "observe demo_sky obs demo_now body = Inr (body, demo_now)"
  "altaz demo_sky (''Sun'', demo_now) = Inr (- 20, 180)"
  "altaz demo_sky (''Moon'', demo_now) = Inr (35, 180)"
  "radec demo_sky pos = Inr (5.5, - 12.25)"
  by (simp_all add: demo_sky_def demo_now_def)

theorem sun_and_moon_records_witness:
  "(\<exists>planets p.
       get_visible_planets demo_sky (Some 40.7128) (Some (- 74.0060)) (Some 10) None False False
         False = Inr planets
     \<and> p \<in> set planets \<and> pd_name p = ''Sun'' \<and> pd_altitude p = - 20 \<and> pd_magnitude p = - 26.7)
   \<and> (\<exists>planets p.
       get_visible_planets demo_sky (Some 40.7128) (Some (- 74.0060)) (Some 10) None False False
         False = Inr planets
     \<and> p \<in> set planets \<and> pd_name p = ''Moon'' \<and> pd_altitude p = 35 \<and> pd_magnitude p = - 12.5)"
proof -
  have sun: "observation_time demo_sky None = Inr demo_now
      \<and> latlon demo_sky 40.7128 (- 74.0060) 10 = Inr (40.7128, - 74.0060, 10)
      \<and> from_datetime demo_sky demo_now = Inr demo_now
      \<and> (''Sun'' = ''Sun'' \<or> ''Sun'' = ''Moon'')
      \<and> observe demo_sky (40.7128, - 74.0060, 10) demo_now ''Sun'' = Inr (''Sun'', demo_now)
      \<and> altaz demo_sky (''Sun'', demo_now) = Inr (- 20, 180)
      \<and> radec demo_sky (''Sun'', demo_now) = Inr (5.5, - 12.25)"
    by (simp add: demo_setup demo_observe)
  have moon: "observation_time demo_sky None = Inr demo_now
      \<and> latlon demo_sky 40.7128 (- 74.0060) 10 = Inr (40.7128, - 74.0060, 10)
      \<and> from_datetime demo_sky demo_now = Inr demo_now
      \<and> (''Moon'' = ''Sun'' \<or> ''Moon'' = ''Moon'')
      \<and> observe demo_sky (40.7128, - 74.0060, 10) demo_now ''Moon'' = Inr (''Moon'', demo_now)
      \<and> altaz demo_sky (''Moon'', demo_now) = Inr (35, 180)
      \<and> radec demo_sky (''Moon'', demo_now) = Inr (5.5, - 12.25)"
    by (simp add: demo_setup demo_observe)
  note thm_sun = sun_and_moon_records[where sky = demo_sky and time_arg = None and d = demo_now
      and latitude = "40.7128" and longitude = "- 74.0060" and elevation = 10
      and observer = "(40.7128, - 74.0060, 10)" and t = demo_now and body = "''Sun''"
      and pos = "(''Sun'', demo_now)" and alt = "- 20" and az = 180 and ra = "5.5"
      and dec = "- 12.25" and show_coords = False and offline = False, THEN conjunct2, THEN mp, OF sun]
  note thm_moon = sun_and_moon_records[where sky = demo_sky and time_arg = None and d = demo_now
      and latitude = "40.7128" and longitude = "- 74.0060" and elevation = 10
      and observer = "(40.7128, - 74.0060, 10)" and t = demo_now and body = "''Moon''"
      and pos = "(''Moon'', demo_now)" and alt = 35 and az = 180 and ra = "5.5"
      and dec = "- 12.25" and show_coords = False and offline = False, THEN conjunct2, THEN mp, OF moon]
  from thm_sun have a: "\<exists>planets p.
       get_visible_planets demo_sky (Some 40.7128) (Some (- 74.0060)) (Some 10) None False False
         False = Inr planets
     \<and> p \<in> set planets \<and> pd_name p = ''Sun'' \<and> pd_altitude p = - 20 \<and> pd_magnitude p = - 26.7"
    by (simp add: py_round_minus_20)
  from thm_moon have b: "\<exists>planets p.
       get_visible_planets demo_sky (Some 40.7128) (Some (- 74.0060)) (Some 10) None False False
         False = Inr planets
     \<and> p \<in> set planets \<and> pd_name p = ''Moon'' \<and> pd_altitude p = 35 \<and> pd_magnitude p = - 12.5"
    by (simp add: py_round_35)
  from a b show ?thesis by (rule conjI)
qed

lemma demo_out_of_range:
  "observation_time demo_sky (Some (TimeObj \<lparr> wall = 9999, tzinfo = Some 0 \<rparr>))
     = Inr \<lparr> wall = 9999, tzinfo = Some 0 \<rparr>"
  "from_datetime demo_sky \<lparr> wall = 9999, tzinfo = Some 0 \<rparr> = Inr \<lparr> wall = 9999, tzinfo = Some 0 \<rparr>"
  "planet_record demo_sky obs \<lparr> wall = 9999, tzinfo = Some 0 \<rparr> show_coords body = Inl ValueError"
  by (simp_all add: observation_time_def demo_sky_def planet_record_def)

lemma demo_catalogue:
  "PLANETS (ephemeris_has demo_sky) =
     [''Sun'', ''Mercury'', ''Venus'', ''Mars'', ''Jupiter'', ''Saturn'', ''Uranus'',
      ''Neptune'', ''Moon'']"
  by (simp add: PLANETS_def demo_sky_def)

text \<open>
  Claim C7 as stated fails for an instant that the ephemeris does not cover: every
  observation raises, every body is left out, and the unfiltered list is empty, without
  Sun and without Moon.
\<close>

theorem sun_and_moon_missing_out_of_range:
  "get_visible_planets demo_sky (Some 40.7128) (Some (- 74.0060)) (Some 10)
     (Some (TimeObj \<lparr> wall = 9999, tzinfo = Some 0 \<rparr>)) False False False = Inr []"
proof -
  have "collect_planets (planet_record demo_sky (40.7128, - 74.0060, 10)
            \<lparr> wall = 9999, tzinfo = Some 0 \<rparr> False) (PLANETS (ephemeris_has demo_sky)) = []"
    unfolding demo_catalogue by (simp add: demo_out_of_range(3))
  with get_visible_planets_setup[OF demo_out_of_range(1) demo_setup(2) demo_out_of_range(2),
      of "40.7128" "- 74.0060" 10 False False False]
  show ?thesis by simp
qed

text \<open>
  The body of \<open>get_visible_planets\<close>.  With latitude, longitude or elevation omitted it
  returns what it returns with 40.7128, -74.0060 and 0 in their places, for all three
  omitted and for any of them; and with all three omitted it returns a list whenever the
  observation time, the observer at the default location and the Skyfield time can be
  built.
\<close>

lemma get_visible_planets_default_location:
  "get_visible_planets sky None None None time_arg show_coords above_horizon offline
     = get_visible_planets sky (Some 40.7128) (Some (- 74.0060)) (Some 0) time_arg show_coords
         above_horizon offline
   \<and> get_visible_planets sky latitude0 longitude0 elevation0 time_arg show_coords above_horizon
       offline
     = get_visible_planets sky
         (Some (case latitude0 of None \<Rightarrow> 40.7128 | Some v \<Rightarrow> v))
         (Some (case longitude0 of None \<Rightarrow> - 74.0060 | Some v \<Rightarrow> v))
         (Some (case elevation0 of None \<Rightarrow> 0 | Some v \<Rightarrow> v))
         time_arg show_coords above_horizon offline
   \<and> (observation_time sky time_arg = Inr d
      \<and> latlon sky 40.7128 (- 74.0060) 0 = Inr observer
      \<and> from_datetime sky d = Inr t
      \<longrightarrow> (\<exists>planets. get_visible_planets sky None None None time_arg show_coords above_horizon
                        offline = Inr planets))"
proof (intro conjI impI)
  show e: "get_visible_planets sky None None None time_arg show_coords above_horizon offline
     = get_visible_planets sky (Some 40.7128) (Some (- 74.0060)) (Some 0) time_arg show_coords
         above_horizon offline"
    by (simp add: get_visible_planets_def)
  show "get_visible_planets sky latitude0 longitude0 elevation0 time_arg show_coords above_horizon
       offline
     = get_visible_planets sky
         (Some (case latitude0 of None \<Rightarrow> 40.7128 | Some v \<Rightarrow> v))
         (Some (case longitude0 of None \<Rightarrow> - 74.0060 | Some v \<Rightarrow> v))
         (Some (case elevation0 of None \<Rightarrow> 0 | Some v \<Rightarrow> v))
         time_arg show_coords above_horizon offline"
    by (simp add: get_visible_planets_def)
  assume "observation_time sky time_arg = Inr d
      \<and> latlon sky 40.7128 (- 74.0060) 0 = Inr observer
      \<and> from_datetime sky d = Inr t"
  then have h: "observation_time sky time_arg = Inr d"
    "latlon sky 40.7128 (- 74.0060) 0 = Inr observer" "from_datetime sky d = Inr t"
    by simp_all
  from get_visible_planets_setup[OF h, of show_coords above_horizon offline]
  show "\<exists>planets. get_visible_planets sky None None None time_arg show_coords above_horizon
                        offline = Inr planets"
    unfolding e by (intro exI)
qed

lemma get_visible_planets_default_location_demo:
  "get_visible_planets demo_sky None None None None False True False
     = get_visible_planets demo_sky (Some 40.7128) (Some (- 74.0060)) (Some 0) None False True False
   \<and> (\<exists>planets. get_visible_planets demo_sky None None None None False True False = Inr planets)"
proof -
  have h: "observation_time demo_sky None = Inr demo_now
      \<and> latlon demo_sky 40.7128 (- 74.0060) 0 = Inr (40.7128, - 74.0060, 0)
      \<and> from_datetime demo_sky demo_now = Inr demo_now"
    by (simp add: demo_setup)
  note t = get_visible_planets_default_location[where sky = demo_sky and time_arg = None
      and d = demo_now and observer = "(40.7128, - 74.0060, 0)" and t = demo_now
      and show_coords = False and above_horizon = True and offline = False]
  from t[THEN conjunct1] t[THEN conjunct2, THEN conjunct2, THEN mp, OF h]
  show ?thesis by (rule conjI)
qed

subsection \<open>Moon phase names\<close>

lemma get_moon_phase_fields:
  assumes "moon_phase_percent sky time0 = Inr phase_percent"
    and "get_moon_phase sky time0 = Inr mp"
  shows "mp_phase_name mp = moon_phase_name phase_percent"
    and "mp_phase_percent mp = py_round phase_percent 1"
  using assms
  by (auto simp: get_moon_phase_def Let_def split: sum.splits if_splits)

lemma folded_angle_percent_range:
  "0 \<le> (if 180 < py_fmod x 360 then 360 - py_fmod x 360 else py_fmod x 360) / 180 * 100"
  "(if 180 < py_fmod x 360 then 360 - py_fmod x 360 else py_fmod x 360) / 180 * 100 \<le> 100"
  using py_fmod_range[of 360 x] by (simp_all split: if_splits)

lemma moon_phase_percent_range:
  assumes "moon_phase_percent sky time0 = Inr phase_percent"
  shows "0 \<le> phase_percent" and "phase_percent \<le> 100"
proof -
  from assms obtain x where p: "phase_percent =
      (if 180 < py_fmod x 360 then 360 - py_fmod x 360 else py_fmod x 360) / 180 * 100"
    by (auto simp only: moon_phase_percent_def Let_def sum.simps split: sum.splits)
  show "0 \<le> phase_percent" unfolding p by (rule folded_angle_percent_range)
  show "phase_percent \<le> 100" unfolding p by (rule folded_angle_percent_range)
qed

text \<open>
  Claim C8, as the code has it.  With the phase percent that \<open>get_moon_phase\<close> computes
  (before rounding): 0 yields New Moon, 50 yields First Quarter, every percent from 49
  inclusive to 51 exclusive yields First Quarter, and 100 yields Last Quarter.
\<close>

theorem moon_phase_names:
  assumes "moon_phase_percent sky time0 = Inr phase_percent"
    and "get_moon_phase sky time0 = Inr mp"
  shows "(phase_percent = 0 \<longrightarrow> mp_phase_name mp = ''New Moon'')
       \<and> (phase_percent = 50 \<longrightarrow> mp_phase_name mp = ''First Quarter'')
       \<and> (49 \<le> phase_percent \<and> phase_percent < 51 \<longrightarrow> mp_phase_name mp = ''First Quarter'')
       \<and> (phase_percent = 100 \<longrightarrow> mp_phase_name mp = ''Last Quarter'')"
  unfolding get_moon_phase_fields(1)[OF assms]
  by (simp add: moon_phase_name_def)

lemma demo_moon_percent:
  "moon_phase_percent demo_sky (Some \<lparr> wall = w, tzinfo = None \<rparr>)
     = Inr ((if 180 < py_fmod (of_int w / 10) 360 then 360 - py_fmod (of_int w / 10) 360
             else py_fmod (of_int w / 10) 360) / 180 * 100)"
  by (simp add: moon_phase_percent_def demo_sky_def Let_def)

lemma demo_moon_phase:
  "map_sum id mp_phase_name (get_moon_phase demo_sky (Some \<lparr> wall = w, tzinfo = None \<rparr>))
     = Inr (moon_phase_name ((if 180 < py_fmod (of_int w / 10) 360 then 360 - py_fmod (of_int w / 10) 360
             else py_fmod (of_int w / 10) 360) / 180 * 100))"
  unfolding get_moon_phase_def demo_moon_percent
  by (simp add: demo_sky_def Let_def)

lemma demo_percent_values:
  "moon_phase_percent demo_sky (Some \<lparr> wall = 0, tzinfo = None \<rparr>) = Inr 0"
  "moon_phase_percent demo_sky (Some \<lparr> wall = 900, tzinfo = None \<rparr>) = Inr 50"
  "moon_phase_percent demo_sky (Some \<lparr> wall = 918, tzinfo = None \<rparr>) = Inr 51"
  "moon_phase_percent demo_sky (Some \<lparr> wall = 1800, tzinfo = None \<rparr>) = Inr 100"
  unfolding demo_moon_percent by (simp_all add: py_fmod_def)

text \<open>
  Claim C8 as stated fails at the upper end of the band: a phase percent of exactly 51
  (elongation 91.8 degrees) is named Waxing Gibbous, not First Quarter.
\<close>

theorem moon_phase_at_51:
  "moon_phase_percent demo_sky (Some \<lparr> wall = 918, tzinfo = None \<rparr>) = Inr 51
   \<and> map_sum id mp_phase_name (get_moon_phase demo_sky (Some \<lparr> wall = 918, tzinfo = None \<rparr>))
       = Inr ''Waxing Gibbous''
   \<and> moon_phase_name 51 \<noteq> ''First Quarter''"
proof -
  have "map_sum id mp_phase_name (get_moon_phase demo_sky (Some \<lparr> wall = 918, tzinfo = None \<rparr>))
       = Inr (moon_phase_name 51)"
    unfolding demo_moon_phase by (simp add: py_fmod_def)
  then show ?thesis by (simp add: demo_percent_values moon_phase_name_def)
qed

lemma demo_moon_phase_returns:
  "\<exists>mp. get_moon_phase demo_sky (Some \<lparr> wall = w, tzinfo = None \<rparr>) = Inr mp"
  unfolding get_moon_phase_def demo_moon_percent
  by (simp add: demo_sky_def Let_def)

theorem moon_phase_names_witness:
  "map_sum id mp_phase_name (get_moon_phase demo_sky (Some \<lparr> wall = 0, tzinfo = None \<rparr>))
     = Inr ''New Moon''
   \<and> map_sum id mp_phase_name (get_moon_phase demo_sky (Some \<lparr> wall = 900, tzinfo = None \<rparr>))
     = Inr ''First Quarter''
   \<and> map_sum id mp_phase_name (get_moon_phase demo_sky (Some \<lparr> wall = 1800, tzinfo = None \<rparr>))
     = Inr ''Last Quarter''"
proof -
  obtain m0 where m0: "get_moon_phase demo_sky (Some \<lparr> wall = 0, tzinfo = None \<rparr>) = Inr m0"
    using demo_moon_phase_returns[of 0] by (elim exE)
  obtain m1 where m1: "get_moon_phase demo_sky (Some \<lparr> wall = 900, tzinfo = None \<rparr>) = Inr m1"
    using demo_moon_phase_returns[of 900] by (elim exE)
  obtain m2 where m2: "get_moon_phase demo_sky (Some \<lparr> wall = 1800, tzinfo = None \<rparr>) = Inr m2"
    using demo_moon_phase_returns[of 1800] by (elim exE)
  from moon_phase_names[OF demo_percent_values(1) m0]
  have a: "mp_phase_name m0 = ''New Moon''" by simp
  from moon_phase_names[OF demo_percent_values(2) m1]
  have b: "mp_phase_name m1 = ''First Quarter''" by simp
  from moon_phase_names[OF demo_percent_values(4) m2]
  have c: "mp_phase_name m2 = ''Last Quarter''" by simp
  show ?thesis unfolding m0 m1 m2 by (simp add: a b c)
qed


section \<open>Properties of the decorated get\_visible\_planets\<close>

subsection \<open>A miss runs the body, a hit returns the entry\<close>

lemma cache_result_miss_fst:
  assumes "cache_lookup planets_api io (files st (func_name @ ''_'' @ md5_hexdigest lib (repr_call args))) = None"
  shows "fst (cache_result planets_api lib func_name repr_call func io args st) = func args"
  using assms
  by (cases "func args") (simp_all add: cache_result_def planets_api_key planets_api_enabled)

lemma cached_miss:
  assumes "cache_lookup planets_api io
             (files st (''get_visible_planets'' @ ''_'' @ md5_hexdigest lib (repr_call c))) = None"
  shows "fst (cached_get_visible_planets sky lib repr_call io c st)
         = get_visible_planets sky (arg_latitude c) (arg_longitude c) (arg_elevation c)
             (arg_time c) (arg_show_coords c) (arg_above_horizon c) (arg_use_offline_mode c)"
  unfolding cached_get_visible_planets_def
  using assms by (rule cache_result_miss_fst)

lemma cached_hit:
  assumes "cache_lookup planets_api io
             (files st (''get_visible_planets'' @ ''_'' @ md5_hexdigest lib (repr_call c))) = Some stored"
  shows "cached_get_visible_planets sky lib repr_call io c st = (Inr stored, st)"
  unfolding cached_get_visible_planets_def
  using assms by (rule cache_result_hit)

lemma cached_miss_state:
  assumes "cache_lookup planets_api io
             (files st (''get_visible_planets'' @ ''_'' @ md5_hexdigest lib (repr_call c))) = None"
    and "get_visible_planets sky (arg_latitude c) (arg_longitude c) (arg_elevation c)
             (arg_time c) (arg_show_coords c) (arg_above_horizon c) (arg_use_offline_mode c) = Inr r"
  shows "cached_get_visible_planets sky lib repr_call io c st
         = (Inr r, st\<lparr>calls := calls st + 1,
                      files := cache_store planets_api lib io
                        (''get_visible_planets'' @ ''_'' @ md5_hexdigest lib (repr_call c)) r
                        (files st)\<rparr>)"
  unfolding cached_get_visible_planets_def
  using assms by (rule cache_result_miss)

lemma get_visible_planets_computed:
  assumes "observation_time sky time_arg = Inr d"
    and "latlon sky (case latitude0 of None \<Rightarrow> 40.7128 | Some v \<Rightarrow> v)
           (case longitude0 of None \<Rightarrow> - 74.0060 | Some v \<Rightarrow> v)
           (case elevation0 of None \<Rightarrow> 0 | Some v \<Rightarrow> v) = Inr observer"
    and "from_datetime sky d = Inr t"
  shows "get_visible_planets sky latitude0 longitude0 elevation0 time_arg show_coords
           above_horizon offline
         = Inr (if above_horizon
                then filter (\<lambda>p. 0 < pd_altitude p)
                       (collect_planets (planet_record sky observer t show_coords)
                          (PLANETS (ephemeris_has sky)))
                else collect_planets (planet_record sky observer t show_coords)
                       (PLANETS (ephemeris_has sky)))"
  using assms by (simp add: get_visible_planets_def Let_def)

lemma demo_md5 [simp]: "md5_hexdigest plain_json s = s" "md5_hexdigest numpy_json s = s"
  by (simp_all add: plain_json_def numpy_json_def)

lemma empty_planet_cache_miss:
  "cache_lookup planets_api io (files empty_planet_cache k) = None"
  by (simp add: cache_lookup_def empty_planet_cache_def)

lemma demo_io_fields:
  "read_fails (demo_io x) = False" "open_fails (demo_io x) = False" "dump_fails (demo_io x) = False"
  "now_check (demo_io x) = x" "now_store (demo_io x) = x"
  by (simp_all add: demo_io_def)

lemma cached_warm:
  assumes "cache_lookup planets_api (demo_io x)
             (files st (''get_visible_planets'' @ ''_'' @ md5_hexdigest plain_json (demo_repr c))) = None"
    and "get_visible_planets sky (arg_latitude c) (arg_longitude c) (arg_elevation c)
             (arg_time c) (arg_show_coords c) (arg_above_horizon c) (arg_use_offline_mode c) = Inr r"
    and "y - x \<le> 300"
  shows "cache_lookup planets_api (demo_io y)
           (files (snd (cached_get_visible_planets sky plain_json demo_repr (demo_io x) c st))
              (''get_visible_planets'' @ ''_'' @ md5_hexdigest plain_json (demo_repr c))) = Some r"
proof -
  let ?k = "''get_visible_planets'' @ ''_'' @ md5_hexdigest plain_json (demo_repr c)"
  have first: "cached_get_visible_planets sky plain_json demo_repr (demo_io x) c st
         = (Inr r, st\<lparr>calls := calls st + 1,
                      files := cache_store planets_api plain_json (demo_io x) ?k r (files st)\<rparr>)"
    using assms(1,2) by (rule cached_miss_state)
  have w: "\<not> open_fails (demo_io x)" "\<not> dump_fails (demo_io x)" "json_roundtrip plain_json r = Inr r"
    by (simp_all add: demo_io_fields plain_json_def)
  have f: "\<not> read_fails (demo_io y)" "now_check (demo_io y) - now_store (demo_io x) \<le> 300"
    using assms(3) by (simp_all add: demo_io_fields)
  have stored: "files (snd (cached_get_visible_planets sky plain_json demo_repr (demo_io x) c st)) ?k
                = Some (Entry r (now_store (demo_io x)))"
    unfolding first by (simp add: cache_store_ok[OF w])
  show ?thesis unfolding stored using f by (rule cache_lookup_fresh)
qed


subsection \<open>Two calls with coordinates\<close>







subsection \<open>A malformed time string\<close>

text \<open>
  Claim C4, as the code has it.  A call of \<open>get_visible_planets\<close> whose time argument is a
  string that \<open>datetime.fromisoformat\<close> rejects does not fail for that.  When the cache
  holds no valid entry for the call's arguments, the observation time is the current UTC
  time and the call returns what the body returns with the time omitted: the list
  computed at the current time, whenever the observer and the Skyfield time can be built.
  When the cache holds a valid entry for the same arguments, the call returns the stored
  list and leaves the cache as it was.
\<close>

theorem malformed_time_never_fails:
  assumes "arg_time c = Some (TimeStr s)"
    and "fromisoformat sky (replace_Z s) = Inl ValueError"
  shows "(cache_lookup planets_api io
            (files st (''get_visible_planets'' @ ''_'' @ md5_hexdigest lib (repr_call c))) = None
          \<longrightarrow> observation_time sky (arg_time c) = Inr (now_utc sky)
            \<and> fst (cached_get_visible_planets sky lib repr_call io c st)
                = get_visible_planets sky (arg_latitude c) (arg_longitude c) (arg_elevation c)
                    None (arg_show_coords c) (arg_above_horizon c) (arg_use_offline_mode c)
            \<and> (\<forall>observer t.
                  latlon sky (case arg_latitude c of None \<Rightarrow> 40.7128 | Some v \<Rightarrow> v)
                    (case arg_longitude c of None \<Rightarrow> - 74.0060 | Some v \<Rightarrow> v)
                    (case arg_elevation c of None \<Rightarrow> 0 | Some v \<Rightarrow> v) = Inr observer
                  \<and> from_datetime sky (now_utc sky) = Inr t
                  \<longrightarrow> fst (cached_get_visible_planets sky lib repr_call io c st)
                      = Inr (if arg_above_horizon c
                             then filter (\<lambda>p. 0 < pd_altitude p)
                                    (collect_planets (planet_record sky observer t (arg_show_coords c))
                                       (PLANETS (ephemeris_has sky)))
                             else collect_planets (planet_record sky observer t (arg_show_coords c))
                                    (PLANETS (ephemeris_has sky)))))
       \<and> (\<forall>stored.
             cache_lookup planets_api io
               (files st (''get_visible_planets'' @ ''_'' @ md5_hexdigest lib (repr_call c)))
               = Some stored
             \<longrightarrow> cached_get_visible_planets sky lib repr_call io c st = (Inr stored, st))"
proof (intro conjI impI allI)
  show now: "observation_time sky (arg_time c) = Inr (now_utc sky)"
    unfolding assms(1) using assms(2) by (rule observation_time_malformed)
  assume miss: "cache_lookup planets_api io
            (files st (''get_visible_planets'' @ ''_'' @ md5_hexdigest lib (repr_call c))) = None"
  have body: "fst (cached_get_visible_planets sky lib repr_call io c st)
         = get_visible_planets sky (arg_latitude c) (arg_longitude c) (arg_elevation c)
             (arg_time c) (arg_show_coords c) (arg_above_horizon c) (arg_use_offline_mode c)"
    using miss by (rule cached_miss)
  show "fst (cached_get_visible_planets sky lib repr_call io c st)
                = get_visible_planets sky (arg_latitude c) (arg_longitude c) (arg_elevation c)
                    None (arg_show_coords c) (arg_above_horizon c) (arg_use_offline_mode c)"
    unfolding body assms(1) using assms(2) by (rule malformed_time_uses_current_time)
  fix observer t
  assume "latlon sky (case arg_latitude c of None \<Rightarrow> 40.7128 | Some v \<Rightarrow> v)
                    (case arg_longitude c of None \<Rightarrow> - 74.0060 | Some v \<Rightarrow> v)
                    (case arg_elevation c of None \<Rightarrow> 0 | Some v \<Rightarrow> v) = Inr observer
                  \<and> from_datetime sky (now_utc sky) = Inr t"
  then have o: "latlon sky (case arg_latitude c of None \<Rightarrow> 40.7128 | Some v \<Rightarrow> v)
                    (case arg_longitude c of None \<Rightarrow> - 74.0060 | Some v \<Rightarrow> v)
                    (case arg_elevation c of None \<Rightarrow> 0 | Some v \<Rightarrow> v) = Inr observer"
    and t: "from_datetime sky (now_utc sky) = Inr t" by simp_all
  show "fst (cached_get_visible_planets sky lib repr_call io c st)
                      = Inr (if arg_above_horizon c
                             then filter (\<lambda>p. 0 < pd_altitude p)
                                    (collect_planets (planet_record sky observer t (arg_show_coords c))
                                       (PLANETS (ephemeris_has sky)))
                             else collect_planets (planet_record sky observer t (arg_show_coords c))
                                    (PLANETS (ephemeris_has sky)))"
    unfolding body by (rule get_visible_planets_computed[OF now o t])
next
  fix stored
  assume "cache_lookup planets_api io
               (files st (''get_visible_planets'' @ ''_'' @ md5_hexdigest lib (repr_call c)))
               = Some stored"
  then show "cached_get_visible_planets sky lib repr_call io c st = (Inr stored, st)"
    by (rule cached_hit)
qed

lemma call_bad_time_args:
  "arg_time call_bad_time = Some (TimeStr ''not-a-time'')"
  "arg_latitude call_bad_time = Some 40.7128"
  "arg_longitude call_bad_time = Some (- 74.0060)"
  "arg_elevation call_bad_time = Some 10"
  "arg_show_coords call_bad_time = False"
  "arg_above_horizon call_bad_time = False"
  "arg_use_offline_mode call_bad_time = False"
  by (simp_all add: call_bad_time_def)

lemma demo_now_utc: "now_utc demo_sky = demo_now"
  by (simp add: demo_sky_def)

theorem malformed_time_never_fails_witness:
  "fst (cached_get_visible_planets demo_sky plain_json demo_repr (demo_io 2000) call_bad_time
          empty_planet_cache)
   = Inr (collect_planets (planet_record demo_sky (40.7128, - 74.0060, 10) demo_now False)
            (PLANETS (ephemeris_has demo_sky)))
   \<and> cached_get_visible_planets demo_sky plain_json demo_repr (demo_io 2100) call_bad_time
       (snd (cached_get_visible_planets demo_sky plain_json demo_repr (demo_io 2000) call_bad_time
               empty_planet_cache))
     = (Inr (collect_planets (planet_record demo_sky (40.7128, - 74.0060, 10) demo_now False)
               (PLANETS (ephemeris_has demo_sky))),
        snd (cached_get_visible_planets demo_sky plain_json demo_repr (demo_io 2000) call_bad_time
               empty_planet_cache))"
proof -
  have miss: "cache_lookup planets_api (demo_io 2000)
            (files empty_planet_cache
               (''get_visible_planets'' @ ''_'' @ md5_hexdigest plain_json (demo_repr call_bad_time)))
          = None"
    by (rule empty_planet_cache_miss)
  have lib: "latlon demo_sky (case arg_latitude call_bad_time of None \<Rightarrow> 40.7128 | Some v \<Rightarrow> v)
                    (case arg_longitude call_bad_time of None \<Rightarrow> - 74.0060 | Some v \<Rightarrow> v)
                    (case arg_elevation call_bad_time of None \<Rightarrow> 0 | Some v \<Rightarrow> v)
               = Inr (40.7128, - 74.0060, 10)
             \<and> from_datetime demo_sky (now_utc demo_sky) = Inr demo_now"
    by (simp add: call_bad_time_args demo_setup demo_now_utc)
  have body: "get_visible_planets demo_sky (arg_latitude call_bad_time) (arg_longitude call_bad_time)
            (arg_elevation call_bad_time) (arg_time call_bad_time) (arg_show_coords call_bad_time)
            (arg_above_horizon call_bad_time) (arg_use_offline_mode call_bad_time)
          = Inr (collect_planets (planet_record demo_sky (40.7128, - 74.0060, 10) demo_now False)
              (PLANETS (ephemeris_has demo_sky)))"
    unfolding call_bad_time_args
    by (rule malformed_time_is_not_an_error[THEN conjunct2, THEN conjunct1])
  have warm: "cache_lookup planets_api (demo_io 2100)
           (files (snd (cached_get_visible_planets demo_sky plain_json demo_repr (demo_io 2000)
                          call_bad_time empty_planet_cache))
              (''get_visible_planets'' @ ''_'' @ md5_hexdigest plain_json (demo_repr call_bad_time)))
         = Some (collect_planets (planet_record demo_sky (40.7128, - 74.0060, 10) demo_now False)
              (PLANETS (ephemeris_has demo_sky)))"
    using miss body by (rule cached_warm) simp
  note cold = malformed_time_never_fails[where c = call_bad_time and s = "''not-a-time''"
      and sky = demo_sky and io = "demo_io 2000" and st = empty_planet_cache
      and lib = plain_json and repr_call = demo_repr,
      OF call_bad_time_args(1) demo_fromisoformat_not_a_time]
  note again = malformed_time_never_fails[where c = call_bad_time and s = "''not-a-time''"
      and sky = demo_sky and io = "demo_io 2100"
      and st = "snd (cached_get_visible_planets demo_sky plain_json demo_repr (demo_io 2000)
                       call_bad_time empty_planet_cache)"
      and lib = plain_json and repr_call = demo_repr,
      OF call_bad_time_args(1) demo_fromisoformat_not_a_time]
  from cold[THEN conjunct1, THEN mp, OF miss, THEN conjunct2, THEN conjunct2, THEN spec, THEN spec,
         THEN mp, OF lib]
  have one: "fst (cached_get_visible_planets demo_sky plain_json demo_repr (demo_io 2000) call_bad_time
          empty_planet_cache)
   = Inr (collect_planets (planet_record demo_sky (40.7128, - 74.0060, 10) demo_now False)
            (PLANETS (ephemeris_has demo_sky)))"
    by (simp add: call_bad_time_args)
  from again[THEN conjunct2, THEN spec, THEN mp, OF warm]
  have two: "cached_get_visible_planets demo_sky plain_json demo_repr (demo_io 2100) call_bad_time
       (snd (cached_get_visible_planets demo_sky plain_json demo_repr (demo_io 2000) call_bad_time
               empty_planet_cache))
     = (Inr (collect_planets (planet_record demo_sky (40.7128, - 74.0060, 10) demo_now False)
               (PLANETS (ephemeris_has demo_sky))),
        snd (cached_get_visible_planets demo_sky plain_json demo_repr (demo_io 2000) call_bad_time
               empty_planet_cache))" .
  from one two show ?thesis by (rule conjI)
qed

text \<open>
  Claim C4 as stated fails: in the sample sky, with an empty cache, the call with the time
  string \<open>not-a-time\<close>, which the parser rejects, does not raise; it returns the records
  computed at the current time \<open>demo_now\<close>.
\<close>

theorem malformed_time_through_cache_is_not_an_error:
  "fromisoformat demo_sky (replace_Z ''not-a-time'') = Inl ValueError
   \<and> fst (cached_get_visible_planets demo_sky plain_json demo_repr (demo_io 2000) call_bad_time
            empty_planet_cache)
     = Inr (collect_planets (planet_record demo_sky (40.7128, - 74.0060, 10) demo_now False)
              (PLANETS (ephemeris_has demo_sky)))
   \<and> fst (cached_get_visible_planets demo_sky plain_json demo_repr (demo_io 2000) call_bad_time
            empty_planet_cache) \<noteq> Inl APIDataError"
proof -
  have "fst (cached_get_visible_planets demo_sky plain_json demo_repr (demo_io 2000) call_bad_time
            empty_planet_cache)
        = get_visible_planets demo_sky (arg_latitude call_bad_time) (arg_longitude call_bad_time)
            (arg_elevation call_bad_time) (arg_time call_bad_time) (arg_show_coords call_bad_time)
            (arg_above_horizon call_bad_time) (arg_use_offline_mode call_bad_time)"
    by (rule cached_miss[OF empty_planet_cache_miss])
  also have "\<dots> = Inr (collect_planets (planet_record demo_sky (40.7128, - 74.0060, 10) demo_now False)
              (PLANETS (ephemeris_has demo_sky)))"
    unfolding call_bad_time_args
    by (rule malformed_time_is_not_an_error[THEN conjunct2, THEN conjunct1])
  finally show ?thesis using demo_fromisoformat_not_a_time by simp
qed


subsection \<open>The default location\<close>

text \<open>
  Claim C10, as the code has it.  Take a call of \<open>get_visible_planets\<close> with any of
  latitude, longitude and elevation omitted, whose observation time, observer at latitude
  40.7128, longitude -74.0060 and elevation 0 in the omitted places, and Skyfield time can
  be built.  When the cache holds no valid entry for the call's arguments, the call
  returns the list computed for that observer, which is what the body returns with the
  defaults written out; when it holds none for the arguments with the defaults written out
  either, the two calls return the same list.  When the cache holds a valid entry for the
  call's arguments, the call returns the stored list.  The cache key is made from the
  arguments as written, so the omitted and the written-out call have different entries.
\<close>

theorem omitted_location_uses_defaults:
  assumes "observation_time sky (arg_time c) = Inr d"
    and "latlon sky (case arg_latitude c of None \<Rightarrow> 40.7128 | Some v \<Rightarrow> v)
           (case arg_longitude c of None \<Rightarrow> - 74.0060 | Some v \<Rightarrow> v)
           (case arg_elevation c of None \<Rightarrow> 0 | Some v \<Rightarrow> v) = Inr observer"
    and "from_datetime sky d = Inr t"
  shows "(cache_lookup planets_api io
            (files st (''get_visible_planets'' @ ''_'' @ md5_hexdigest lib (repr_call c))) = None
          \<longrightarrow> fst (cached_get_visible_planets sky lib repr_call io c st)
                = Inr (if arg_above_horizon c
                       then filter (\<lambda>p. 0 < pd_altitude p)
                              (collect_planets (planet_record sky observer t (arg_show_coords c))
                                 (PLANETS (ephemeris_has sky)))
                       else collect_planets (planet_record sky observer t (arg_show_coords c))
                              (PLANETS (ephemeris_has sky)))
            \<and> fst (cached_get_visible_planets sky lib repr_call io c st)
                = get_visible_planets sky
                    (Some (case arg_latitude c of None \<Rightarrow> 40.7128 | Some v \<Rightarrow> v))
                    (Some (case arg_longitude c of None \<Rightarrow> - 74.0060 | Some v \<Rightarrow> v))
                    (Some (case arg_elevation c of None \<Rightarrow> 0 | Some v \<Rightarrow> v))
                    (arg_time c) (arg_show_coords c) (arg_above_horizon c)
                    (arg_use_offline_mode c))
       \<and> (cache_lookup planets_api io
            (files st (''get_visible_planets'' @ ''_'' @ md5_hexdigest lib (repr_call c))) = None
          \<and> cache_lookup planets_api io
              (files st (''get_visible_planets'' @ ''_'' @ md5_hexdigest lib
                 (repr_call (c\<lparr> arg_latitude := Some (case arg_latitude c of None \<Rightarrow> 40.7128 | Some v \<Rightarrow> v),
                                 arg_longitude := Some (case arg_longitude c of None \<Rightarrow> - 74.0060 | Some v \<Rightarrow> v),
                                 arg_elevation := Some (case arg_elevation c of None \<Rightarrow> 0 | Some v \<Rightarrow> v) \<rparr>))))
              = None
          \<longrightarrow> fst (cached_get_visible_planets sky lib repr_call io c st)
              = fst (cached_get_visible_planets sky lib repr_call io
                       (c\<lparr> arg_latitude := Some (case arg_latitude c of None \<Rightarrow> 40.7128 | Some v \<Rightarrow> v),
                           arg_longitude := Some (case arg_longitude c of None \<Rightarrow> - 74.0060 | Some v \<Rightarrow> v),
                           arg_elevation := Some (case arg_elevation c of None \<Rightarrow> 0 | Some v \<Rightarrow> v) \<rparr>)
                       st))
       \<and> (\<forall>stored.
             cache_lookup planets_api io
               (files st (''get_visible_planets'' @ ''_'' @ md5_hexdigest lib (repr_call c)))
               = Some stored
             \<longrightarrow> cached_get_visible_planets sky lib repr_call io c st = (Inr stored, st))"
proof -
  let ?lat = "case arg_latitude c of None \<Rightarrow> 40.7128 | Some v \<Rightarrow> v"
  let ?lon = "case arg_longitude c of None \<Rightarrow> - 74.0060 | Some v \<Rightarrow> v"
  let ?el = "case arg_elevation c of None \<Rightarrow> 0 | Some v \<Rightarrow> v"
  let ?c' = "c\<lparr> arg_latitude := Some ?lat, arg_longitude := Some ?lon, arg_elevation := Some ?el \<rparr>"
  let ?list = "if arg_above_horizon c
               then filter (\<lambda>p. 0 < pd_altitude p)
                      (collect_planets (planet_record sky observer t (arg_show_coords c))
                         (PLANETS (ephemeris_has sky)))
               else collect_planets (planet_record sky observer t (arg_show_coords c))
                      (PLANETS (ephemeris_has sky))"
  let ?k = "\<lambda>a. ''get_visible_planets'' @ ''_'' @ md5_hexdigest lib (repr_call a)"
  have own: "get_visible_planets sky (arg_latitude c) (arg_longitude c) (arg_elevation c)
               (arg_time c) (arg_show_coords c) (arg_above_horizon c) (arg_use_offline_mode c)
             = Inr ?list"
    by (rule get_visible_planets_computed[OF assms])
  have explicit: "get_visible_planets sky (Some ?lat) (Some ?lon) (Some ?el)
               (arg_time c) (arg_show_coords c) (arg_above_horizon c) (arg_use_offline_mode c)
             = Inr ?list"
    using assms by (intro get_visible_planets_computed) simp_all
  have a: "fst (cached_get_visible_planets sky lib repr_call io c st) = Inr ?list"
    if "cache_lookup planets_api io (files st (?k c)) = None"
    using cached_miss[where repr_call = repr_call and c = c and sky = sky and io = io and st = st and lib = lib] that own
    by simp
  have b: "fst (cached_get_visible_planets sky lib repr_call io ?c' st) = Inr ?list"
    if "cache_lookup planets_api io (files st (?k ?c')) = None"
    using cached_miss[where repr_call = repr_call and c = "?c'" and sky = sky and io = io and st = st and lib = lib] that explicit
    by simp
  have h: "cached_get_visible_planets sky lib repr_call io c st = (Inr stored, st)"
    if "cache_lookup planets_api io (files st (?k c)) = Some stored" for stored
    using cached_hit[where repr_call = repr_call and c = c and sky = sky and io = io and st = st and lib = lib and stored = stored] that
    by simp
  show ?thesis
  proof (intro conjI impI allI)
    assume m: "cache_lookup planets_api io (files st (?k c)) = None"
    from a[OF m] show "fst (cached_get_visible_planets sky lib repr_call io c st) = Inr ?list" .
    from a[OF m] explicit
    show "fst (cached_get_visible_planets sky lib repr_call io c st)
            = get_visible_planets sky (Some ?lat) (Some ?lon) (Some ?el)
                (arg_time c) (arg_show_coords c) (arg_above_horizon c) (arg_use_offline_mode c)"
      by simp
  next
    assume "cache_lookup planets_api io (files st (?k c)) = None
          \<and> cache_lookup planets_api io (files st (?k ?c')) = None"
    then have m: "cache_lookup planets_api io (files st (?k c)) = None"
      and m': "cache_lookup planets_api io (files st (?k ?c')) = None" by simp_all
    from a[OF m] b[OF m']
    show "fst (cached_get_visible_planets sky lib repr_call io c st)
            = fst (cached_get_visible_planets sky lib repr_call io ?c' st)" by simp
  next
    fix stored
    assume "cache_lookup planets_api io (files st (?k c)) = Some stored"
    then show "cached_get_visible_planets sky lib repr_call io c st = (Inr stored, st)" by (simp add: h)
  qed
qed

lemma moving_sky_fields:
  "observation_time (moving_sky w) None = Inr \<lparr> wall = w, tzinfo = Some 0 \<rparr>"
  "latlon (moving_sky w) lat lon el = Inr (lat, lon, el)"
  "from_datetime (moving_sky w) \<lparr> wall = v, tzinfo = Some 0 \<rparr> = Inr \<lparr> wall = v, tzinfo = Some 0 \<rparr>"
  "observe (moving_sky w) (lat, lon, el) \<lparr> wall = v, tzinfo = Some 0 \<rparr> body = Inr (body, lat, v)"
  "altaz (moving_sky w) (''Sun'', lat, v) = Inr (lat - 60.7128 + (of_int v - 1000) / 100, 180)"
  "altaz (moving_sky w) (''Moon'', lat, v) = Inr (lat - 5.7128 + (of_int v - 1000) / 100, 180)"
  "radec (moving_sky w) pos = Inr (5.5, - 12.25)"
  by (simp_all add: observation_time_def moving_sky_def)

lemma moving_catalogue:
  "PLANETS (ephemeris_has (moving_sky w)) =
     [''Sun'', ''Mercury'', ''Venus'', ''Mars'', ''Jupiter'', ''Saturn'', ''Uranus'',
      ''Neptune'', ''Moon'']"
  by (simp add: PLANETS_def moving_sky_def)

lemma moving_planets:
  fixes lat0 lon0 el0 :: "real option"
  defines "lat \<equiv> (case lat0 of None \<Rightarrow> 40.7128 | Some v \<Rightarrow> v)"
  obtains p rest m where
    "get_visible_planets (moving_sky w) lat0 lon0 el0 None False False off = Inr (p # rest)"
    and "pd_name p = ''Sun''"
    and "pd_altitude p = py_round (lat - 60.7128 + (of_int w - 1000) / 100) 2"
    and "m \<in> set rest" and "pd_name m = ''Moon''"
    and "pd_altitude m = py_round (lat - 5.7128 + (of_int w - 1000) / 100) 2"
proof -
  define lon where "lon = (case lon0 of None \<Rightarrow> - 74.0060 | Some v \<Rightarrow> v)"
  define el where "el = (case el0 of None \<Rightarrow> 0 | Some v \<Rightarrow> v)"
  define t where "t = \<lparr> wall = w, tzinfo = Some 0 \<rparr>"
  define calc where "calc = planet_record (moving_sky w) (lat, lon, el) t False"
  have l: "latlon (moving_sky w) (case lat0 of None \<Rightarrow> 40.7128 | Some v \<Rightarrow> v)
             (case lon0 of None \<Rightarrow> - 74.0060 | Some v \<Rightarrow> v)
             (case el0 of None \<Rightarrow> 0 | Some v \<Rightarrow> v) = Inr (lat, lon, el)"
    unfolding lat_def lon_def el_def by (rule moving_sky_fields(2))
  have all: "get_visible_planets (moving_sky w) lat0 lon0 el0 None False False off
       = Inr (collect_planets calc
                [''Sun'', ''Mercury'', ''Venus'', ''Mars'', ''Jupiter'', ''Saturn'', ''Uranus'',
                 ''Neptune'', ''Moon''])"
    using get_visible_planets_computed[OF moving_sky_fields(1) l moving_sky_fields(3),
        of False False off]
    by (simp add: moving_catalogue calc_def t_def)
  have so: "observe (moving_sky w) (lat, lon, el) t ''Sun'' = Inr (''Sun'', lat, w)"
    unfolding t_def by (rule moving_sky_fields(4))
  have sa: "altaz (moving_sky w) (''Sun'', lat, w)
              = Inr (lat - 60.7128 + (of_int w - 1000) / 100, 180)"
    by (rule moving_sky_fields(5))
  have sr: "radec (moving_sky w) (''Sun'', lat, w) = Inr (5.5, - 12.25)"
    by (rule moving_sky_fields(7))
  from planet_record_computed[OF so sa sr, of False]
  obtain p where p: "calc ''Sun'' = Inr p" and pn: "pd_name p = ''Sun''"
    and pa: "pd_altitude p = py_round (lat - 60.7128 + (of_int w - 1000) / 100) 2"
    unfolding calc_def by (elim exE conjE)
  have mo: "observe (moving_sky w) (lat, lon, el) t ''Moon'' = Inr (''Moon'', lat, w)"
    unfolding t_def by (rule moving_sky_fields(4))
  have ml: "altaz (moving_sky w) (''Moon'', lat, w)
              = Inr (lat - 5.7128 + (of_int w - 1000) / 100, 180)"
    by (rule moving_sky_fields(6))
  have mr: "radec (moving_sky w) (''Moon'', lat, w) = Inr (5.5, - 12.25)"
    by (rule moving_sky_fields(7))
  from planet_record_computed[OF mo ml mr, of False]
  obtain m where m: "calc ''Moon'' = Inr m" and mn: "pd_name m = ''Moon''"
    and ma: "pd_altitude m = py_round (lat - 5.7128 + (of_int w - 1000) / 100) 2"
    unfolding calc_def by (elim exE conjE)
  define rest where "rest = collect_planets calc [''Mercury'', ''Venus'', ''Mars'', ''Jupiter'',
     ''Saturn'', ''Uranus'', ''Neptune'', ''Moon'']"
  have split: "collect_planets calc
                [''Sun'', ''Mercury'', ''Venus'', ''Mars'', ''Jupiter'', ''Saturn'', ''Uranus'',
                 ''Neptune'', ''Moon''] = p # rest"
    unfolding rest_def using p by simp
  have "\<exists>b. b \<in> set [''Mercury'', ''Venus'', ''Mars'', ''Jupiter'',
     ''Saturn'', ''Uranus'', ''Neptune'', ''Moon''] \<and> calc b = Inr m"
    using m by (intro exI[of _ "''Moon''"] conjI) simp_all
  then have mem: "m \<in> set rest"
    unfolding rest_def collect_planets_mem .
  show ?thesis
    using all[unfolded split] pn pa mem mn ma by (rule that)
qed

lemma py_round_minus_18: "py_round (- 18) 2 = - 18"
  by (simp add: py_round_def round_half_even_def Let_def)

lemma py_round_rising: "py_round (50 - 5.7128) 2 = 44.29"
  by (simp add: py_round_def round_half_even_def Let_def)

lemma call_omitted_args:
  "arg_time call_omitted = None"
  "arg_latitude call_omitted = None"
  "arg_longitude call_omitted = None"
  "arg_elevation call_omitted = None"
  "arg_show_coords call_omitted = False"
  "arg_above_horizon call_omitted = False"
  "arg_use_offline_mode call_omitted = False"
  by (simp_all add: call_omitted_def)

lemma call_defaults_args:
  "arg_time call_defaults = None"
  "arg_latitude call_defaults = Some 40.7128"
  "arg_longitude call_defaults = Some (- 74.0060)"
  "arg_elevation call_defaults = Some 0"
  "arg_show_coords call_defaults = False"
  "arg_above_horizon call_defaults = False"
  "arg_use_offline_mode call_defaults = False"
  by (simp_all add: call_defaults_def)

lemma call_north_args:
  "arg_time call_north = None"
  "arg_latitude call_north = Some 50"
  "arg_longitude call_north = None"
  "arg_elevation call_north = None"
  "arg_show_coords call_north = False"
  "arg_above_horizon call_north = False"
  "arg_use_offline_mode call_north = False"
  by (simp_all add: call_north_def)

lemma call_omitted_filled:
  "call_omitted\<lparr> arg_latitude := Some (case arg_latitude call_omitted of None \<Rightarrow> 40.7128 | Some v \<Rightarrow> v),
       arg_longitude := Some (case arg_longitude call_omitted of None \<Rightarrow> - 74.0060 | Some v \<Rightarrow> v),
       arg_elevation := Some (case arg_elevation call_omitted of None \<Rightarrow> 0 | Some v \<Rightarrow> v) \<rparr>
   = call_defaults"
  by (simp add: call_omitted_def call_defaults_def)

lemma demo_repr_calls:
  "demo_repr call_omitted = ''None,None,None,None,False,False''"
  "demo_repr call_defaults = ''40,74,0,None,False,False''"
  by (simp_all add: demo_repr_def call_omitted_def call_defaults_def digit_char_def)

theorem omitted_location_uses_defaults_witness:
  "(\<exists>planets m.
      fst (cached_get_visible_planets (moving_sky 1000) plain_json demo_repr (demo_io 1000)
             call_omitted empty_planet_cache) = Inr planets
      \<and> m \<in> set planets \<and> pd_name m = ''Moon'' \<and> pd_altitude m = 35)
   \<and> fst (cached_get_visible_planets (moving_sky 1000) plain_json demo_repr (demo_io 1000)
            call_omitted empty_planet_cache)
     = fst (cached_get_visible_planets (moving_sky 1000) plain_json demo_repr (demo_io 1000)
              call_defaults empty_planet_cache)
   \<and> (\<exists>planets m.
      fst (cached_get_visible_planets (moving_sky 1000) plain_json demo_repr (demo_io 1000)
             call_north empty_planet_cache) = Inr planets
      \<and> m \<in> set planets \<and> pd_name m = ''Moon'' \<and> pd_altitude m = 44.29)
   \<and> fst (cached_get_visible_planets (moving_sky 1200) plain_json demo_repr (demo_io 1200)
            call_omitted
            (snd (cached_get_visible_planets (moving_sky 1000) plain_json demo_repr (demo_io 1000)
                    call_omitted empty_planet_cache)))
     = fst (cached_get_visible_planets (moving_sky 1000) plain_json demo_repr (demo_io 1000)
              call_omitted empty_planet_cache)"
proof -
  let ?now = "\<lparr> wall = 1000, tzinfo = Some 0 \<rparr>"
  let ?later = "\<lparr> wall = 1200, tzinfo = Some 0 \<rparr>"
  have miss: "cache_lookup planets_api (demo_io 1000) (files empty_planet_cache k) = None" for k
    by (rule empty_planet_cache_miss)
  have o1: "observation_time (moving_sky 1000) (arg_time call_omitted) = Inr ?now"
    unfolding call_omitted_args by (rule moving_sky_fields(1))
  have o2: "latlon (moving_sky w)
              (case arg_latitude call_omitted of None \<Rightarrow> 40.7128 | Some v \<Rightarrow> v)
              (case arg_longitude call_omitted of None \<Rightarrow> - 74.0060 | Some v \<Rightarrow> v)
              (case arg_elevation call_omitted of None \<Rightarrow> 0 | Some v \<Rightarrow> v)
            = Inr (40.7128, - 74.0060, 0)" for w
    unfolding call_omitted_args by (simp add: moving_sky_fields(2))
  have o3: "from_datetime (moving_sky 1000) ?now = Inr ?now"
    by (rule moving_sky_fields(3))
  note omitted = omitted_location_uses_defaults[where sky = "moving_sky 1000"
      and c = call_omitted and io = "demo_io 1000" and st = empty_planet_cache
      and lib = plain_json and repr_call = demo_repr, OF o1 o2 o3]
  have n1: "observation_time (moving_sky 1000) (arg_time call_north) = Inr ?now"
    unfolding call_north_args by (rule moving_sky_fields(1))
  have n2: "latlon (moving_sky 1000)
              (case arg_latitude call_north of None \<Rightarrow> 40.7128 | Some v \<Rightarrow> v)
              (case arg_longitude call_north of None \<Rightarrow> - 74.0060 | Some v \<Rightarrow> v)
              (case arg_elevation call_north of None \<Rightarrow> 0 | Some v \<Rightarrow> v)
            = Inr (50, - 74.0060, 0)"
    unfolding call_north_args by (simp add: moving_sky_fields(2))
  note north = omitted_location_uses_defaults[where sky = "moving_sky 1000"
      and c = call_north and io = "demo_io 1000" and st = empty_planet_cache
      and lib = plain_json and repr_call = demo_repr, OF n1 n2 o3]
  have l1: "observation_time (moving_sky 1200) (arg_time call_omitted) = Inr ?later"
    unfolding call_omitted_args by (rule moving_sky_fields(1))
  have l3: "from_datetime (moving_sky 1200) ?later = Inr ?later"
    by (rule moving_sky_fields(3))
  note later = omitted_location_uses_defaults[where sky = "moving_sky 1200"
      and c = call_omitted and io = "demo_io 1200"
      and st = "snd (cached_get_visible_planets (moving_sky 1000) plain_json demo_repr
                       (demo_io 1000) call_omitted empty_planet_cache)"
      and lib = plain_json and repr_call = demo_repr, OF l1 o2 l3]
  have a: "fst (cached_get_visible_planets (moving_sky 1000) plain_json demo_repr (demo_io 1000)
             call_omitted empty_planet_cache)
           = get_visible_planets (moving_sky 1000) (Some 40.7128) (Some (- 74.0060)) (Some 0)
               None False False False"
    using omitted[THEN conjunct1, THEN mp, OF miss, THEN conjunct2]
    by (simp add: call_omitted_args)
  have b: "fst (cached_get_visible_planets (moving_sky 1000) plain_json demo_repr (demo_io 1000)
            call_omitted empty_planet_cache)
     = fst (cached_get_visible_planets (moving_sky 1000) plain_json demo_repr (demo_io 1000)
              call_defaults empty_planet_cache)"
    using omitted[THEN conjunct2, THEN conjunct1, THEN mp, OF conjI[OF miss miss]]
    unfolding call_omitted_filled .
  have c: "fst (cached_get_visible_planets (moving_sky 1000) plain_json demo_repr (demo_io 1000)
             call_north empty_planet_cache)
           = get_visible_planets (moving_sky 1000) (Some 50) (Some (- 74.0060)) (Some 0)
               None False False False"
    using north[THEN conjunct1, THEN mp, OF miss, THEN conjunct2]
    by (simp add: call_north_args)
  obtain p rest m where
    l: "get_visible_planets (moving_sky 1000) (Some 40.7128) (Some (- 74.0060)) (Some 0)
          None False False False = Inr (p # rest)"
    and m: "m \<in> set rest" "pd_name m = ''Moon''"
      "pd_altitude m = py_round ((case Some 40.7128 of None \<Rightarrow> 40.7128 | Some v \<Rightarrow> v)
                                   - 5.7128 + (of_int 1000 - 1000) / 100) 2"
    by (rule moving_planets[of 1000 "Some 40.7128" "Some (- 74.0060)" "Some 0" False])
  have ma: "pd_altitude m = 35"
    using m(3) py_round_35 by simp
  obtain p' rest' m' where
    l': "get_visible_planets (moving_sky 1000) (Some 50) (Some (- 74.0060)) (Some 0)
          None False False False = Inr (p' # rest')"
    and m': "m' \<in> set rest'" "pd_name m' = ''Moon''"
      "pd_altitude m' = py_round ((case Some 50 of None \<Rightarrow> 40.7128 | Some v \<Rightarrow> v)
                                   - 5.7128 + (of_int 1000 - 1000) / 100) 2"
    by (rule moving_planets[of 1000 "Some 50" "Some (- 74.0060)" "Some 0" False])
  have ma': "pd_altitude m' = 44.29"
    using m'(3) py_round_rising by simp
  have first: "\<exists>planets m.
      fst (cached_get_visible_planets (moving_sky 1000) plain_json demo_repr (demo_io 1000)
             call_omitted empty_planet_cache) = Inr planets
      \<and> m \<in> set planets \<and> pd_name m = ''Moon'' \<and> pd_altitude m = 35"
    unfolding a l using m(1,2) ma by (intro exI[of _ "p # rest"] exI[of _ m] conjI) simp_all
  have third: "\<exists>planets m.
      fst (cached_get_visible_planets (moving_sky 1000) plain_json demo_repr (demo_io 1000)
             call_north empty_planet_cache) = Inr planets
      \<and> m \<in> set planets \<and> pd_name m = ''Moon'' \<and> pd_altitude m = 44.29"
    unfolding c l' using m'(1,2) ma' by (intro exI[of _ "p' # rest'"] exI[of _ m'] conjI) simp_all
  have body: "get_visible_planets (moving_sky 1000) (arg_latitude call_omitted)
            (arg_longitude call_omitted) (arg_elevation call_omitted) (arg_time call_omitted)
            (arg_show_coords call_omitted) (arg_above_horizon call_omitted)
            (arg_use_offline_mode call_omitted) = Inr (p # rest)"
    using cached_miss[where sky = "moving_sky 1000" and lib = plain_json and repr_call = demo_repr
        and io = "demo_io 1000" and c = call_omitted and st = empty_planet_cache]
      miss a l
    by simp
  have warm: "cache_lookup planets_api (demo_io 1200)
           (files (snd (cached_get_visible_planets (moving_sky 1000) plain_json demo_repr
                          (demo_io 1000) call_omitted empty_planet_cache))
              (''get_visible_planets'' @ ''_'' @ md5_hexdigest plain_json (demo_repr call_omitted)))
         = Some (p # rest)"
    using miss body by (rule cached_warm) simp
  have fourth: "fst (cached_get_visible_planets (moving_sky 1200) plain_json demo_repr (demo_io 1200)
            call_omitted
            (snd (cached_get_visible_planets (moving_sky 1000) plain_json demo_repr (demo_io 1000)
                    call_omitted empty_planet_cache)))
     = fst (cached_get_visible_planets (moving_sky 1000) plain_json demo_repr (demo_io 1000)
              call_omitted empty_planet_cache)"
    unfolding a l
    using later[THEN conjunct2, THEN conjunct2, THEN spec, THEN mp, OF warm] by simp
  from first b third fourth show ?thesis by (intro conjI)
qed

text \<open>
  Claim C10 as stated fails once the cache holds an entry for one of the two calls.  The
  call with the defaults written out is made at time 1000 and stored.  At time 1200, 200
  seconds later, the same call returns the stored list, with the Sun at -20 degrees; the
  call with the location omitted has another cache key, finds no entry, and computes at
  time 1200, with the Sun at -18 degrees.
\<close>

theorem omitted_and_explicit_defaults_differ:
  "(\<exists>p rest.
      fst (cached_get_visible_planets (moving_sky 1200) plain_json demo_repr (demo_io 1200)
             call_defaults
             (snd (cached_get_visible_planets (moving_sky 1000) plain_json demo_repr
                     (demo_io 1000) call_defaults empty_planet_cache)))
        = Inr (p # rest) \<and> pd_name p = ''Sun'' \<and> pd_altitude p = - 20)
   \<and> (\<exists>p rest.
      fst (cached_get_visible_planets (moving_sky 1200) plain_json demo_repr (demo_io 1200)
             call_omitted
             (snd (cached_get_visible_planets (moving_sky 1000) plain_json demo_repr
                     (demo_io 1000) call_defaults empty_planet_cache)))
        = Inr (p # rest) \<and> pd_name p = ''Sun'' \<and> pd_altitude p = - 18)
   \<and> fst (cached_get_visible_planets (moving_sky 1200) plain_json demo_repr (demo_io 1200)
            call_omitted
            (snd (cached_get_visible_planets (moving_sky 1000) plain_json demo_repr
                    (demo_io 1000) call_defaults empty_planet_cache)))
     \<noteq> fst (cached_get_visible_planets (moving_sky 1200) plain_json demo_repr (demo_io 1200)
              call_defaults
              (snd (cached_get_visible_planets (moving_sky 1000) plain_json demo_repr
                      (demo_io 1000) call_defaults empty_planet_cache)))
   \<and> now_check (demo_io 1200) - now_store (demo_io 1000) \<le> 300"
proof -
  obtain p rest m where
    old: "get_visible_planets (moving_sky 1000) (Some 40.7128) (Some (- 74.0060)) (Some 0)
          None False False False = Inr (p # rest)"
    and pn: "pd_name p = ''Sun''"
    and pa0: "pd_altitude p = py_round ((case Some 40.7128 of None \<Rightarrow> 40.7128 | Some v \<Rightarrow> v)
                                   - 60.7128 + (of_int 1000 - 1000) / 100) 2"
    by (rule moving_planets[of 1000 "Some 40.7128" "Some (- 74.0060)" "Some 0" False])
  have pa: "pd_altitude p = - 20" using pa0 py_round_minus_20 by simp
  obtain q rest' m' where
    new: "get_visible_planets (moving_sky 1200) None None None
          None False False False = Inr (q # rest')"
    and qn: "pd_name q = ''Sun''"
    and qa0: "pd_altitude q = py_round ((case None of None \<Rightarrow> 40.7128 | Some v \<Rightarrow> v)
                                   - 60.7128 + (of_int 1200 - 1000) / 100) 2"
    by (rule moving_planets[of 1200 None None None False])
  have qa: "pd_altitude q = - 18" using qa0 py_round_minus_18 by simp
  define kd where "kd = ''get_visible_planets'' @ ''_'' @ md5_hexdigest plain_json (demo_repr call_defaults)"
  define ko where "ko = ''get_visible_planets'' @ ''_'' @ md5_hexdigest plain_json (demo_repr call_omitted)"
  have keys: "ko \<noteq> kd"
    unfolding ko_def kd_def by (simp add: demo_repr_calls)
  define st1 where "st1 = empty_planet_cache\<lparr>calls := calls empty_planet_cache + 1,
      files := cache_store planets_api plain_json (demo_io 1000) kd (p # rest)
                 (files empty_planet_cache)\<rparr>"
  have fd: "get_visible_planets (moving_sky 1000) (arg_latitude call_defaults)
              (arg_longitude call_defaults) (arg_elevation call_defaults) (arg_time call_defaults)
              (arg_show_coords call_defaults) (arg_above_horizon call_defaults)
              (arg_use_offline_mode call_defaults) = Inr (p # rest)"
    unfolding call_defaults_args by (rule old)
  have fo: "get_visible_planets (moving_sky 1200) (arg_latitude call_omitted)
              (arg_longitude call_omitted) (arg_elevation call_omitted) (arg_time call_omitted)
              (arg_show_coords call_omitted) (arg_above_horizon call_omitted)
              (arg_use_offline_mode call_omitted) = Inr (q # rest')"
    unfolding call_omitted_args by (rule new)
  have first: "cached_get_visible_planets (moving_sky 1000) plain_json demo_repr (demo_io 1000)
                 call_defaults empty_planet_cache = (Inr (p # rest), st1)"
    unfolding st1_def kd_def
  proof (rule cached_miss_state)
    show "cache_lookup planets_api (demo_io 1000)
       (files empty_planet_cache
         (''get_visible_planets'' @ ''_'' @ md5_hexdigest plain_json (demo_repr call_defaults))) = None"
      by (rule empty_planet_cache_miss)
  qed (rule fd)
  have stored: "files st1 kd = Some (Entry (p # rest) 1000)"
    by (simp add: st1_def cache_store_def demo_io_fields planets_api_has_time plain_json_def)
  have absent: "files st1 ko = None"
    using keys
    by (simp add: st1_def cache_store_def demo_io_fields planets_api_has_time plain_json_def
        empty_planet_cache_def)
  have hit: "cache_lookup planets_api (demo_io 1200) (files st1 kd) = Some (p # rest)"
    unfolding stored
    by (simp add: cache_lookup_def demo_io_fields planets_api_has_time planets_api_enabled)
  have miss: "cache_lookup planets_api (demo_io 1200) (files st1 ko) = None"
    unfolding absent by (simp add: cache_lookup_def)
  have explicit: "cached_get_visible_planets (moving_sky 1200) plain_json demo_repr (demo_io 1200)
                 call_defaults st1 = (Inr (p # rest), st1)"
    using cached_hit[where sky = "moving_sky 1200" and lib = plain_json and repr_call = demo_repr
        and io = "demo_io 1200" and c = call_defaults and st = st1 and stored = "p # rest"]
      hit
    unfolding kd_def by simp
  have omitted: "fst (cached_get_visible_planets (moving_sky 1200) plain_json demo_repr (demo_io 1200)
                 call_omitted st1) = Inr (q # rest')"
    using cached_miss[where sky = "moving_sky 1200" and lib = plain_json and repr_call = demo_repr
        and io = "demo_io 1200" and c = call_omitted and st = st1]
      miss fo
    unfolding ko_def by simp
  have differ: "Inr (q # rest') \<noteq> (Inr (p # rest) :: error + planet_data list)"
    using pa qa by auto
  have s: "snd (cached_get_visible_planets (moving_sky 1000) plain_json demo_repr
                     (demo_io 1000) call_defaults empty_planet_cache) = st1"
    unfolding first by simp
  show ?thesis
    unfolding s explicit omitted fst_conv
    using pn pa qn qa differ by (simp add: demo_io_fields)
qed

end
